theory Spec2Isabelle
  imports Main "HOL-Library.Finite_Map" "HOL-Library.Char_ord" "HOL-Library.List_Lexorder"
begin

section \<open>Schema model (gatewaytypes/types.go)\<close>

text \<open>
  Go's \<open>reflect.Kind\<close>, in the order of its declaration: the walk compares kinds with
  \<open>>=\<close> and \<open><=\<close>, so the numbering matters. Go maps are finite, so they are finite maps
  here; a nil map is \<open>None\<close>, an allocated one is \<open>Some\<close>.
\<close>

datatype Kind =
    K_Invalid | K_Bool | K_Int | K_Int8 | K_Int16 | K_Int32 | K_Int64
  | K_Uint | K_Uint8 | K_Uint16 | K_Uint32 | K_Uint64 | K_Uintptr
  | K_Float32 | K_Float64 | K_Complex64 | K_Complex128
  | K_Array | K_Chan | K_Func | K_Interface | K_Map | K_Ptr | K_Slice | K_String
  | K_Struct | K_UnsafePointer

fun kind_num :: "Kind \<Rightarrow> nat" where
  "kind_num K_Invalid = 0" | "kind_num K_Bool = 1" | "kind_num K_Int = 2"
| "kind_num K_Int8 = 3" | "kind_num K_Int16 = 4" | "kind_num K_Int32 = 5"
| "kind_num K_Int64 = 6" | "kind_num K_Uint = 7" | "kind_num K_Uint8 = 8"
| "kind_num K_Uint16 = 9" | "kind_num K_Uint32 = 10" | "kind_num K_Uint64 = 11"
| "kind_num K_Uintptr = 12" | "kind_num K_Float32 = 13" | "kind_num K_Float64 = 14"
| "kind_num K_Complex64 = 15" | "kind_num K_Complex128 = 16" | "kind_num K_Array = 17"
| "kind_num K_Chan = 18" | "kind_num K_Func = 19" | "kind_num K_Interface = 20"
| "kind_num K_Map = 21" | "kind_num K_Ptr = 22" | "kind_num K_Slice = 23"
| "kind_num K_String = 24" | "kind_num K_Struct = 25" | "kind_num K_UnsafePointer = 26"

text \<open>
  \<open>gatewaytypes.Type\<close>: four fields, of which the walk fills one. The zero value of
  \<open>TypeOf\<close> is \<open>reflect.Invalid\<close>; the pointers and the map are nil (\<open>None\<close>) when unset.
\<close>

datatype Type = Type
  (TypeOf: Kind)
  (ArrayOf: "Type option")
  (ObjectOf: "(string, Type) fmap option")
  (MapOf: "Type option")

record Method =
  Method_Name :: string
  Method_Args :: "Type option"
  Method_Returns :: "Type option"

record Service =
  Service_Name :: string
  Service_Methods :: "(string, Method) fmap"

section \<open>What reflection shows of a Go type\<close>

text \<open>
  A \<open>reflect.Type\<close> as the walk sees it. \<open>T_Other k\<close> is a type of kind \<open>k\<close> whose inner
  structure the walk never looks at (the scalar kinds, complex numbers, channels,
  functions, unsafe pointers). An interface type carries its name (empty for a type
  literal) and its method names, which is what type identity with \<open>interface{}\<close> depends
  on. A struct field carries its name, the value of \<open>f.Tag.Get("json")\<close>, the
  \<open>Anonymous\<close> flag and its type. The datatype is finite, so the cyclic types of Go
  (a struct that reaches itself through a pointer or slice), on which the walk does not
  return, are not values of it.
\<close>

datatype 't StructField = StructField
  (f_Name: string)
  (f_Tag_json: string)
  (f_Anonymous: bool)
  (f_Type: 't)

datatype rtype =
    T_Other Kind
  | T_Ptr rtype
  | T_Array rtype
  | T_Slice rtype
  | T_Map rtype rtype
  | T_Interface string "string list"
  | T_Struct "rtype StructField list"

fun Kind_of :: "rtype \<Rightarrow> Kind" where
  "Kind_of (T_Other k) = k"
| "Kind_of (T_Ptr _) = K_Ptr"
| "Kind_of (T_Array _) = K_Array"
| "Kind_of (T_Slice _) = K_Slice"
| "Kind_of (T_Map _ _) = K_Map"
| "Kind_of (T_Interface _ _) = K_Interface"
| "Kind_of (T_Struct _) = K_Struct"

text \<open>
  Errors are values. \<open>errors.New(msg)\<close> keeps its message; \<open>fmt.Errorf(format, t)\<close> keeps
  the format and the type it prints.
\<close>

datatype error = errors_New string | Errorf string rtype

definition typeOfEmptyInterface :: rtype where
  "typeOfEmptyInterface = T_Interface [] []"

section \<open>The schema extractor (server.go)\<close>

text \<open>
  The two functions of Go's standard library that \<open>isExported\<close> calls, as parameters:
  \<open>utf8.DecodeRuneInString\<close>, which gives the first rune of a string and its width in
  bytes, and \<open>unicode.IsUpper\<close>, the table of the upper-case letters of Unicode. A
  string is its bytes; a rune is the number of a code point.
\<close>

type_synonym rune = int

record stdlib =
  utf8_DecodeRuneInString :: "string \<Rightarrow> rune \<times> int"
  unicode_IsUpper :: "rune \<Rightarrow> bool"

definition isExported :: "stdlib \<Rightarrow> string \<Rightarrow> bool" where
  "isExported lib name =
     (case utf8_DecodeRuneInString lib name of (r, _) \<Rightarrow> unicode_IsUpper lib r)"

text \<open>
  \<open>getFieldKey\<close>: \<open>strings.SplitN(jsonTag, ",", 2)\<close> of a non-empty tag has at least one
  part, and its first part is the tag up to the first comma.
\<close>

definition getFieldKey :: "'t StructField \<Rightarrow> string" where
  "getFieldKey f =
    (let key = f_Name f; jsonTag = f_Tag_json f in
     if jsonTag = [] then key
     else let part0 = takeWhile (\<lambda>c. c \<noteq> CHR '','') jsonTag in
       if part0 = [] then key else part0)"

text \<open>\<open>len\<close> of a Go map: a nil map has length 0.\<close>

definition len_map :: "('k, 'v) fmap option \<Rightarrow> nat" where
  "len_map om = (case om of None \<Rightarrow> 0 | Some m \<Rightarrow> fcard (fmdom m))"

text \<open>\<open>for k, v := range src { m[k] = v }\<close>: no iteration over a nil map.\<close>

definition copy_into :: "('k, 'v) fmap \<Rightarrow> ('k, 'v) fmap option \<Rightarrow> ('k, 'v) fmap" where
  "copy_into m src = (case src of None \<Rightarrow> m | Some c \<Rightarrow> fmadd m c)"

text \<open>The first step of \<open>processType\<close>: one pointer layer is removed.\<close>

definition indirect :: "rtype \<Rightarrow> rtype" where
  "indirect t = (case t of T_Ptr e \<Rightarrow> e | _ \<Rightarrow> t)"

text \<open>
  \<open>processType\<close>, with the loop over the fields of a struct as \<open>processFields\<close>: it carries
  the map \<open>m\<close> built so far and stops at the first field whose walk fails.
\<close>

function processType :: "stdlib \<Rightarrow> rtype \<Rightarrow> error + Type"
  and processFields ::
    "stdlib \<Rightarrow> rtype StructField list \<Rightarrow> (string, Type) fmap
       \<Rightarrow> error + (string, Type) fmap"
where
  "processType lib t0 =
    (let t = indirect t0; kind = Kind_of t in
     if (kind_num K_Bool \<le> kind_num kind \<and> kind_num kind \<le> kind_num K_Float64)
        \<or> kind = K_String
       then Inr (Type kind None None None)
     else case t of
       T_Array e \<Rightarrow>
         (case processType lib e of
            Inl err \<Rightarrow> Inl err
          | Inr innerT \<Rightarrow> Inr (Type K_Invalid (Some innerT) None None))
     | T_Slice e \<Rightarrow>
         (case processType lib e of
            Inl err \<Rightarrow> Inl err
          | Inr innerT \<Rightarrow> Inr (Type K_Invalid (Some innerT) None None))
     | T_Map k e \<Rightarrow>
         if Kind_of k \<noteq> K_String then Inl (Errorf ''unsupported map type: %v'' t)
         else (case processType lib e of
                 Inl err \<Rightarrow> Inl err
               | Inr innerT \<Rightarrow> Inr (Type K_Invalid None None (Some innerT)))
     | T_Interface n ms \<Rightarrow>
         if t \<noteq> typeOfEmptyInterface then Inl (Errorf ''unsupported interface: %v'' t)
         else Inr (Type kind None None None)
     | T_Struct fs \<Rightarrow>
         (case processFields lib fs fmempty of
            Inl err \<Rightarrow> Inl err
          | Inr m \<Rightarrow> Inr (Type K_Invalid None (Some m) None))
     | _ \<Rightarrow> Inl (Errorf ''unsupported type: %v'' t))"
| "processFields lib [] m = Inr m"
| "processFields lib (f # fs) m =
    (if \<not> isExported lib (f_Name f) then processFields lib fs m
     else
       let key = getFieldKey f in
       case processType lib (f_Type f) of
         Inl err \<Rightarrow> Inl err
       | Inr innerT \<Rightarrow>
           if f_Anonymous f \<and> len_map (ObjectOf innerT) > 0
             then processFields lib fs (copy_into m (ObjectOf innerT))
             else processFields lib fs (fmupd key innerT m))"
  by pat_completeness auto
termination
proof (relation "measure (\<lambda>x. case x of
          Inl (lib, t) \<Rightarrow> 2 * size t + 1
        | Inr (lib, fs, m) \<Rightarrow> 2 * size_list (size_StructField size) fs)")
  show "wf (measure (\<lambda>x. case x of
          Inl (lib, t) \<Rightarrow> 2 * size t + 1
        | Inr (lib, fs, m) \<Rightarrow> 2 * size_list (size_StructField size) fs))"
    by simp
next
  fix lib :: stdlib and f :: "rtype StructField" and fs :: "rtype StructField list"
    and m :: "(string, Type) fmap"
  show "(Inl (lib, f_Type f), Inr (lib, f # fs, m)) \<in> measure (\<lambda>x. case x of
          Inl (lib, t) \<Rightarrow> 2 * size t + 1
        | Inr (lib, fs, m) \<Rightarrow> 2 * size_list (size_StructField size) fs)"
    by (cases f) simp
qed (auto simp: indirect_def split: rtype.splits)

declare processType.simps [simp del]







section \<open>The gateway: data (gateway.go, request.go)\<close>

type_synonym bytes = string
type_synonym addr = nat

text \<open>\<open>url.URL\<close>, by value. The registry and the HTTP request hold pointers to such values.\<close>

record URL =
  URL_Scheme :: string
  URL_Opaque :: string
  URL_User :: "string option"
  URL_Host :: string
  URL_Path :: string
  URL_RawPath :: string
  URL_RawQuery :: string
  URL_Fragment :: string

text \<open>\<open>remoteService\<close> embeds \<open>gatewaytypes.Service\<close> and a \<open>*url.URL\<close> (nil is \<open>None\<close>).\<close>

record remoteService = Service +
  rsrv_URL :: "addr option"
  origURL :: string

record http_Request =
  hr_Method :: string
  hr_Header :: "(string, string) fmap"
  hr_URL :: "addr option"
  hr_RequestURI :: string
  hr_Body :: bytes
  hr_ContentLength :: int

text \<open>
  A response writer is the log of what was done to it. \<open>wevent\<close> are the operations of
  \<open>http.ResponseWriter\<close>; on the client's writer the codec request also writes, and what
  it frames is its own business, so its two calls are logged as such.
\<close>

datatype wevent =
    Header_Add string string
  | Header_Set string string
  | WriteHeader int
  | Write bytes

datatype 'v reply = Value 'v | RawMessage bytes

datatype 'v event =
    W wevent
  | Codec_WriteError int error
  | Codec_WriteResponse "'v reply"

text \<open>
  \<open>rpc.CodecRequest\<close>, an external collaborator: the object \<open>codec.NewRequest(r)\<close> returns.
  \<open>ReadRequest\<close> fills the value it is given; called on \<open>&r.args\<close> it yields raw bytes.
  A codec is its \<open>NewRequest\<close>.
\<close>

record 'v CodecRequest =
  codec_Method :: "error + string"
  codec_ReadRequest :: "'v \<Rightarrow> error option \<times> 'v"
  codec_ReadRequestRaw :: "error + bytes"

type_synonym 'v Codec = "http_Request \<Rightarrow> 'v CodecRequest"

text \<open>
  \<open>gateway.Request\<close>. \<open>respWriter\<close> is the client's writer: the log so far, which the
  \<open>Write*\<close> methods extend.
\<close>

record 'v Request =
  Request_http :: http_Request
  RemoteMethod :: Method
  ServiceName :: string
  respWriter :: "'v event list"
  codecReq :: "'v CodecRequest"
  newMethod :: string
  args :: bytes
  responded :: bool

text \<open>
  A callback is user code that drives the methods of \<open>Request\<close>: what it calls next may
  depend on what the calls before returned. A run of it is a tree of calls.
\<close>

datatype 'v script =
    Return
  | CallMethod "error + string \<Rightarrow> 'v script"
  | CallWriteError int error "'v script"
  | CallWriteResponse 'v "'v script"
  | CallReadRequest 'v "error option \<times> 'v \<Rightarrow> 'v script"
  | CallUpdateRequest string "'v option" "error option \<Rightarrow> 'v script"

text \<open>
  An \<open>http.Handler\<close> the request is dispatched to, by what it does to the recorder it is
  given; it sees the request and the URL value its pointer refers to.
\<close>

type_synonym Handler = "http_Request \<Rightarrow> URL option \<Rightarrow> wevent list"

text \<open>
  The external collaborators, as parameters: the SRV client (with the state of its cache
  and of DNS, \<open>'w\<close>), \<open>net/url\<close>, \<open>rpcutil.JSONRPC2Call\<close> on \<open>RPC.GetServices\<close>,
  \<open>fmt.Sprintf\<close>, \<open>strings.ToLower\<close>, \<open>http.DefaultClient.Do\<close> (the content type and
  body of the answer), \<open>encoding/json\<close> and the client side of \<open>json2\<close>.
\<close>

record ('v, 'w) externals =
  MaybeSRV :: "'w \<Rightarrow> string \<Rightarrow> string \<times> 'w"
  url_Parse :: "string \<Rightarrow> error + URL"
  URL_String :: "URL \<Rightarrow> string"
  JSONRPC2Call_GetServices :: "'w \<Rightarrow> string \<Rightarrow> (error + Service list) \<times> 'w"
  Sprintf :: "string \<Rightarrow> string list \<Rightarrow> string"
  strings_ToLower :: "string \<Rightarrow> string"
  DefaultClient_Do :: "http_Request \<Rightarrow> URL option \<Rightarrow> error + string \<times> bytes"
  json_Marshal :: "'v \<Rightarrow> error + bytes"
  json_Unmarshal :: "bytes \<Rightarrow> 'v \<Rightarrow> error option \<times> 'v"
  EncodeClientRequest :: "string \<Rightarrow> bytes \<Rightarrow> error + bytes"
  DecodeClientResponse :: "bytes \<Rightarrow> error + bytes"

text \<open>
  The state the gateway's methods work on: the fields of \<open>Gateway\<close> (the maps are shared
  by every copy of the struct; \<open>srv\<close> is the SRV client's state), and the memory holding
  the \<open>url.URL\<close> values: \<open>heap\<close> at the addresses below \<open>brk\<close>, which are the allocated ones.
  \<open>refreshing\<close> counts the refresh tasks that \<open>go g.refreshURLs()\<close> has started and that
  have not run yet. The poll channel is the input \<open>tick\<close> of \<open>ServeHTTP\<close>; the lock is not
  modelled, every operation here runs to its end before the next begins.
\<close>

record ('v, 'w) state =
  services :: "(string, remoteService) fmap"
  codecs :: "(string, 'v Codec) fmap"
  srv :: 'w
  BackupHandler :: "Handler option"
  RequestCallback :: "('v Request \<Rightarrow> 'v script) option"
  CORSMatch :: "(string \<Rightarrow> bool) option"
  heap :: "addr \<Rightarrow> URL"
  brk :: addr
  refreshing :: nat

datatype panic = nil_pointer_dereference

section \<open>The request context (request.go)\<close>

definition Method :: "'v Request \<Rightarrow> error + string" where
  "Method r = (if newMethod r \<noteq> [] then Inr (newMethod r) else codec_Method (codecReq r))"

definition WriteError :: "int \<Rightarrow> error \<Rightarrow> 'v Request \<Rightarrow> 'v Request" where
  "WriteError status err r =
     r\<lparr>responded := True, respWriter := respWriter r @ [Codec_WriteError status err]\<rparr>"

definition WriteResponse :: "'v \<Rightarrow> 'v Request \<Rightarrow> 'v Request" where
  "WriteResponse i r =
     r\<lparr>responded := True, respWriter := respWriter r @ [Codec_WriteResponse (Value i)]\<rparr>"

definition ReadRequest :: "('v, 'w) externals \<Rightarrow> 'v Request \<Rightarrow> 'v \<Rightarrow> error option \<times> 'v" where
  "ReadRequest ext r v =
     (if length (args r) > 0 then json_Unmarshal ext (args r) v
      else codec_ReadRequest (codecReq r) v)"

text \<open>
  \<open>UpdateRequest\<close>: \<open>r.args.UnmarshalJSON(a)\<close> has a non-nil receiver, so it stores a copy
  of \<open>a\<close> in \<open>r.args\<close> and returns nil. A nil \<open>params\<close> is \<open>None\<close>.
\<close>

definition UpdateRequest ::
  "('v, 'w) externals \<Rightarrow> string \<Rightarrow> 'v option \<Rightarrow> 'v Request \<Rightarrow> error option \<times> 'v Request" where
  "UpdateRequest ext method params r =
     (let r1 = (if method \<noteq> [] then r\<lparr>newMethod := method\<rparr> else r) in
      case params of
        None \<Rightarrow> (None, r1)
      | Some p \<Rightarrow>
          (case json_Marshal ext p of
             Inl err \<Rightarrow> (Some err, r1)
           | Inr a \<Rightarrow> (None, r1\<lparr>args := a\<rparr>)))"

definition getClientRequest ::
  "('v, 'w) externals \<Rightarrow> 'v Request \<Rightarrow> (error + bytes) \<times> 'v Request" where
  "getClientRequest ext r =
     (case (if length (args r) = 0
            then (case codec_ReadRequestRaw (codecReq r) of
                    Inl err \<Rightarrow> Inl err
                  | Inr a \<Rightarrow> Inr (r\<lparr>args := a\<rparr>))
            else Inr r) of
        Inl err \<Rightarrow> (Inl err, r)
      | Inr r1 \<Rightarrow>
          (case Method r1 of
             Inl err \<Rightarrow> (Inl err, r1)
           | Inr m \<Rightarrow> (EncodeClientRequest ext m (args r1), r1)))"

text \<open>Running a callback: each call acts on the request context as the method does.\<close>

primrec run_script :: "('v, 'w) externals \<Rightarrow> 'v script \<Rightarrow> 'v Request \<Rightarrow> 'v Request" where
  "run_script ext Return r = r"
| "run_script ext (CallMethod k) r = run_script ext (k (Method r)) r"
| "run_script ext (CallWriteError status err k) r = run_script ext k (WriteError status err r)"
| "run_script ext (CallWriteResponse i k) r = run_script ext k (WriteResponse i r)"
| "run_script ext (CallReadRequest v k) r = run_script ext (k (ReadRequest ext r v)) r"
| "run_script ext (CallUpdateRequest method params k) r =
     run_script ext (k (fst (UpdateRequest ext method params r)))
       (snd (UpdateRequest ext method params r))"

text \<open>Whether the run of a callback on \<open>r\<close> calls \<open>WriteError\<close> or \<open>WriteResponse\<close>.\<close>

primrec calls_Write :: "('v, 'w) externals \<Rightarrow> 'v script \<Rightarrow> 'v Request \<Rightarrow> bool" where
  "calls_Write ext Return r = False"
| "calls_Write ext (CallMethod k) r = calls_Write ext (k (Method r)) r"
| "calls_Write ext (CallWriteError status err k) r = True"
| "calls_Write ext (CallWriteResponse i k) r = True"
| "calls_Write ext (CallReadRequest v k) r = calls_Write ext (k (ReadRequest ext r v)) r"
| "calls_Write ext (CallUpdateRequest method params k) r =
     calls_Write ext (k (fst (UpdateRequest ext method params r)))
       (snd (UpdateRequest ext method params r))"

section \<open>The gateway: operations (gateway.go)\<close>

text \<open>\<open>new\<close>: a fresh \<open>url.URL\<close> in memory, at the first free address.\<close>

definition new_URL :: "URL \<Rightarrow> ('v, 'w) state \<Rightarrow> addr \<times> ('v, 'w) state" where
  "new_URL u s = (brk s, s\<lparr>heap := (heap s)(brk s := u), brk := Suc (brk s)\<rparr>)"

text \<open>
  \<open>resolveURL\<close>, for a non-nil \<open>uu\<close>: \<open>uu2 := *uu\<close> copies the value, the copy gets the
  host the SRV client answers, and a pointer to the copy is returned.
\<close>

definition resolveURL ::
  "('v, 'w) externals \<Rightarrow> addr \<Rightarrow> ('v, 'w) state \<Rightarrow> addr \<times> ('v, 'w) state" where
  "resolveURL ext uu s =
     (let uu2 = heap s uu;
          (host, srv') = MaybeSRV ext (srv s) (URL_Host (heap s uu))
      in new_URL (uu2\<lparr>URL_Host := host\<rparr>) (s\<lparr>srv := srv'\<rparr>))"

text \<open>\<open>g.services[srv.Name] = remoteService{...}\<close>, for the returned service \<open>svc\<close>.\<close>

definition add_service ::
  "addr \<Rightarrow> string \<Rightarrow> Service \<Rightarrow> (string, remoteService) fmap \<Rightarrow> (string, remoteService) fmap" where
  "add_service uu u svc m =
     fmupd (Service_Name svc)
       \<lparr>Service_Name = Service_Name svc, Service_Methods = Service_Methods svc,
        rsrv_URL = Some uu, origURL = u\<rparr> m"

definition AddURL ::
  "('v, 'w) externals \<Rightarrow> string \<Rightarrow> ('v, 'w) state \<Rightarrow> error option \<times> ('v, 'w) state" where
  "AddURL ext u0 s =
     (let u = (if take 4 u0 \<noteq> ''http'' then ''http://'' @ u0 else u0) in
      case url_Parse ext u of
        Inl err \<Rightarrow> (Some err, s)
      | Inr parsed \<Rightarrow>
          let (uu, s1) = new_URL parsed s in
          if URL_Host (heap s1 uu) = [] then (Some (errors_New ''invalid url specified''), s1)
          else
            let (resolved, s2) = resolveURL ext uu s1;
                u2 = URL_String ext (heap s2 resolved);
                (res, srv') = JSONRPC2Call_GetServices ext (srv s2) u2;
                s3 = s2\<lparr>srv := srv'\<rparr>
            in case res of
                 Inl err \<Rightarrow> (Some err, s3)
               | Inr srvs \<Rightarrow>
                   (None, s3\<lparr>services := fold (add_service uu u) srvs (services s3)\<rparr>))"



definition RegisterCodec ::
  "('v, 'w) externals \<Rightarrow> 'v Codec \<Rightarrow> string \<Rightarrow> ('v, 'w) state \<Rightarrow> ('v, 'w) state" where
  "RegisterCodec ext codec contentType s =
     s\<lparr>codecs := fmupd (strings_ToLower ext contentType) codec (codecs s)\<rparr>"

text \<open>
  \<open>strings.SplitN(s, sep, 2)\<close> for a one-byte separator: one part when the separator does
  not occur, otherwise the text before its first occurrence and the text after it.
\<close>

definition SplitN2 :: "string \<Rightarrow> char \<Rightarrow> string list" where
  "SplitN2 s sep =
     (if sep \<notin> set s then [s]
      else [takeWhile (\<lambda>c. c \<noteq> sep) s, tl (dropWhile (\<lambda>c. c \<noteq> sep) s)])"

text \<open>The zero values \<open>getMethod\<close> returns for what it did not find.\<close>

definition zero_remoteService :: remoteService where
  "zero_remoteService =
     \<lparr>Service_Name = [], Service_Methods = fmempty, rsrv_URL = None, origURL = []\<rparr>"

definition zero_Method :: Method where
  "zero_Method = \<lparr>Method_Name = [], Method_Args = None, Method_Returns = None\<rparr>"

definition getMethod ::
  "('v, 'w) state \<Rightarrow> string \<Rightarrow> remoteService \<times> Method \<times> error option" where
  "getMethod s mStr =
     (let parts = SplitN2 mStr CHR ''.'' in
      if length parts \<noteq> 2
        then (zero_remoteService, zero_Method, Some (errors_New ''invalid method endpoint given''))
      else
        let srvName = parts ! 0; mName = parts ! 1 in
        case fmlookup (services s) srvName of
          None \<Rightarrow>
            (zero_remoteService, zero_Method,
             Some (errors_New ''no remote service for given name''))
        | Some rsrv \<Rightarrow>
            (case fmlookup (Service_Methods rsrv) mName of
               None \<Rightarrow>
                 (rsrv, zero_Method,
                  Some (errors_New ''remote service cannot handle this method''))
             | Some m \<Rightarrow> (rsrv, m, None)))"


definition writeErrorf ::
  "('v, 'w) externals \<Rightarrow> int \<Rightarrow> string \<Rightarrow> string list \<Rightarrow> wevent list" where
  "writeErrorf ext status msg as =
     [WriteHeader status,
      Header_Set ''Content-Type'' ''text/plain; charset=utf-8'',
      Write (Sprintf ext msg as)]"

definition externalHandler :: "('v, 'w) externals \<Rightarrow> Handler" where
  "externalHandler ext r u =
     (case DefaultClient_Do ext r u of
        Inl err \<Rightarrow> writeErrorf ext 500 ''{}'' []
      | Inr (contentType, body) \<Rightarrow> [Header_Set ''Content-Type'' contentType, Write body])"

text \<open>
  \<open>httptest.ResponseRecorder\<close>: the code is that of the first \<open>WriteHeader\<close>, or 200 when a
  write comes first or nothing is written; the body is what was written.
\<close>

fun rec_Code :: "wevent list \<Rightarrow> int" where
  "rec_Code [] = 200"
| "rec_Code (WriteHeader c # es) = c"
| "rec_Code (Write b # es) = 200"
| "rec_Code (e # es) = rec_Code es"

fun rec_Body :: "wevent list \<Rightarrow> bytes" where
  "rec_Body [] = []"
| "rec_Body (Write b # es) = b @ rec_Body es"
| "rec_Body (e # es) = rec_Body es"

definition Header_Get :: "(string, string) fmap \<Rightarrow> string \<Rightarrow> string" where
  "Header_Get h k = (case fmlookup h k of None \<Rightarrow> [] | Some v \<Rightarrow> v)"

text \<open>The handler a request is dispatched to: the forwarder, or the backup handler.\<close>

datatype target = External | Backup Handler

definition target_ServeHTTP :: "('v, 'w) externals \<Rightarrow> target \<Rightarrow> Handler" where
  "target_ServeHTTP ext t = (case t of External \<Rightarrow> externalHandler ext | Backup h \<Rightarrow> h)"

text \<open>
  What one call of \<open>ServeHTTP\<close> leaves: the log of the client's writer, and the requests
  dispatched to a handler (with the URL value each carries).
\<close>

record 'v served =
  client :: "'v event list"
  dispatched :: "(target \<times> http_Request \<times> URL option) list"

text \<open>The CORS block of \<open>ServeHTTP\<close>.\<close>

definition cors_headers :: "('v, 'w) state \<Rightarrow> http_Request \<Rightarrow> wevent list" where
  "cors_headers s r =
     (let origin = Header_Get (hr_Header r) ''Origin'' in
      if origin \<noteq> [] \<and> (case CORSMatch s of None \<Rightarrow> False | Some re \<Rightarrow> re origin)
      then [Header_Add ''Access-Control-Allow-Origin'' origin,
            Header_Add ''Access-Control-Allow-Methods'' ''GET, POST, OPTIONS'',
            Header_Add ''Access-Control-Allow-Credentials'' ''true'',
            Header_Add ''Access-Control-Allow-Headers''
              ''DNT, User-Agent, X-Requested-With, Content-Type'']
      else [])"

text \<open>
  The content type the codec is looked up by: \<open>idx := strings.Index(contentType, ";")\<close>,
  and the text before \<open>idx\<close> when there is one.
\<close>

definition strip_params :: "string \<Rightarrow> string" where
  "strip_params contentType =
     (if CHR '';'' \<in> set contentType then takeWhile (\<lambda>c. c \<noteq> CHR '';'') contentType
      else contentType)"

text \<open>
  \<open>for _, c := range g.codecs { codec = c; break }\<close>: the value of the first key of the
  iteration. The loop is only reached for a map of length 1, whose single key it is; on
  an empty map the variable stays nil.
\<close>

definition range_first :: "('k, 'c) fmap \<Rightarrow> 'c option" where
  "range_first m = (if fmdom m = {||} then None else fmlookup m (fthe_elem (fmdom m)))"

text \<open>
  The codec selection of \<open>ServeHTTP\<close>: \<open>Inl\<close> is the early return with 415, \<open>Inr\<close> the value of
  the variable \<open>codec\<close> after the statement.
\<close>

definition select_codec ::
  "('v, 'w) externals \<Rightarrow> ('v, 'w) state \<Rightarrow> http_Request \<Rightarrow> wevent list + 'v Codec option" where
  "select_codec ext s r =
     (let contentType = strip_params (Header_Get (hr_Header r) ''Content-Type'') in
      if contentType = [] \<and> len_map (Some (codecs s)) = 1 then Inr (range_first (codecs s))
      else case fmlookup (codecs s) (strings_ToLower ext contentType) of
             None \<Rightarrow>
               Inl (writeErrorf ext 415 ''rpc: unrecognized Content-Type: %q'' [contentType])
           | Some codec \<Rightarrow> Inr (Some codec))"

text \<open>The routing of \<open>ServeHTTP\<close>: \<open>Inl\<close> is the early return with the error to frame.\<close>

definition route ::
  "('v, 'w) state \<Rightarrow> string \<Rightarrow> error + (target \<times> remoteService \<times> Method)" where
  "route s m =
     (case getMethod s m of
        (rsrv, rpcMethod, Some err) \<Rightarrow>
          (case BackupHandler s of
             Some h \<Rightarrow> Inr (Backup h, rsrv, rpcMethod)
           | None \<Rightarrow> Inl err)
      | (rsrv, rpcMethod, None) \<Rightarrow> Inr (External, rsrv, rpcMethod))"

text \<open>\<open>req := &Request{...}\<close>: the context handed to the callback; \<open>w\<close> is the client's log.\<close>

definition new_Request ::
  "http_Request \<Rightarrow> remoteService \<Rightarrow> Method \<Rightarrow> 'v event list \<Rightarrow> 'v CodecRequest \<Rightarrow> 'v Request" where
  "new_Request r rsrv rpcMethod w cr =
     \<lparr>Request_http = r, RemoteMethod = rpcMethod, ServiceName = Service_Name rsrv,
      respWriter = w, codecReq = cr, newMethod = [], args = [], responded = False\<rparr>"

text \<open>
  The URL of the request to forward: the resolved copy of the service's URL, or nil for a
  request on its way to the backup handler; the request URI is cleared.
\<close>

definition resolve_request ::
  "('v, 'w) externals \<Rightarrow> remoteService \<Rightarrow> http_Request \<Rightarrow> ('v, 'w) state
     \<Rightarrow> http_Request \<times> ('v, 'w) state" where
  "resolve_request ext rsrv r s =
     (case rsrv_URL rsrv of
        Some uu \<Rightarrow>
          (case resolveURL ext uu s of
             (a, s') \<Rightarrow> (r\<lparr>hr_URL := Some a, hr_RequestURI := []\<rparr>, s'))
      | None \<Rightarrow> (r\<lparr>hr_URL := None, hr_RequestURI := []\<rparr>, s))"

text \<open>
  \<open>ServeHTTP\<close> from the construction of the \<open>Request\<close> on, for the routed request: the URL
  is resolved, the callback runs, and unless it responded the request is re-framed,
  dispatched and the answer re-framed. The \<open>Request\<close> holds a pointer to the HTTP request,
  so the callback sees it with the resolved URL.
\<close>

definition forward ::
  "('v, 'w) externals \<Rightarrow> ('v, 'w) state \<Rightarrow> http_Request \<Rightarrow> 'v event list \<Rightarrow> 'v CodecRequest
     \<Rightarrow> target \<times> remoteService \<times> Method \<Rightarrow> 'v served \<times> ('v, 'w) state" where
  "forward ext s r w cr routed =
     (case routed of (handler, rsrv, rpcMethod) \<Rightarrow>
      let (r1, s1) = resolve_request ext rsrv r s;
          req = new_Request r1 rsrv rpcMethod w cr;
          req1 = (case RequestCallback s of
                    Some cb \<Rightarrow> run_script ext (cb req) req
                  | None \<Rightarrow> req)
      in if responded req1 then (\<lparr>client = respWriter req1, dispatched = []\<rparr>, s1)
         else
           (case getClientRequest ext req1 of
              (Inl err, req2) \<Rightarrow>
                (\<lparr>client = respWriter req2 @ [Codec_WriteError 500 err], dispatched = []\<rparr>, s1)
            | (Inr b, req2) \<Rightarrow>
                let r2 = (Request_http req2)\<lparr>hr_Body := b, hr_ContentLength := int (length b)\<rparr>;
                    u = map_option (heap s1) (hr_URL r2);
                    rec = target_ServeHTTP ext handler r2 u;
                    answer = (case DecodeClientResponse ext (rec_Body rec) of
                                Inl err \<Rightarrow> Codec_WriteError (rec_Code rec) err
                              | Inr resRes \<Rightarrow> Codec_WriteResponse (RawMessage resRes))
                in (\<lparr>client = respWriter req2 @ [answer], dispatched = [(handler, r2, u)]\<rparr>,
                    s1)))"

text \<open>
  \<open>ServeHTTP\<close> after the codec selection: \<open>codec.NewRequest(r)\<close> reads the body, the method
  is asked of the codec request and routed.
\<close>

definition serve_codec ::
  "('v, 'w) externals \<Rightarrow> ('v, 'w) state \<Rightarrow> http_Request \<Rightarrow> 'v event list \<Rightarrow> 'v Codec
     \<Rightarrow> 'v served \<times> ('v, 'w) state" where
  "serve_codec ext s r w codec =
     (let cr = codec r; r0 = r\<lparr>hr_Body := []\<rparr> in
      case codec_Method cr of
        Inl err \<Rightarrow> (\<lparr>client = w @ [Codec_WriteError 400 err], dispatched = []\<rparr>, s)
      | Inr m \<Rightarrow>
          (case route s m of
             Inl err \<Rightarrow> (\<lparr>client = w @ [Codec_WriteError 400 err], dispatched = []\<rparr>, s)
           | Inr routed \<Rightarrow> forward ext s r0 w cr routed))"

text \<open>
  The first statement of \<open>ServeHTTP\<close>,
  \<open>select { case <-g.poll: go g.refreshURLs() default: }\<close>: \<open>tick\<close> says whether a tick of
  the 30-second timer is waiting on the channel; if so a refresh task is started, which
  runs beside the handler.
\<close>

definition poll :: "bool \<Rightarrow> ('v, 'w) state \<Rightarrow> ('v, 'w) state" where
  "poll tick s = (if tick then s\<lparr>refreshing := Suc (refreshing s)\<rparr> else s)"

text \<open>
  \<open>ServeHTTP\<close>. The logging is left out. Calling \<open>NewRequest\<close> on a nil codec panics.
\<close>

definition ServeHTTP ::
  "('v, 'w) externals \<Rightarrow> bool \<Rightarrow> http_Request \<Rightarrow> ('v, 'w) state
     \<Rightarrow> panic + 'v served \<times> ('v, 'w) state" where
  "ServeHTTP ext tick r s0 =
     (let s = poll tick s0;
          w = map W (cors_headers s r) in
      if hr_Method r = ''OPTIONS'' then Inr (\<lparr>client = w, dispatched = []\<rparr>, s)
      else if hr_Method r \<noteq> ''POST''
        then Inr (\<lparr>client = w @ map W (writeErrorf ext 405
                                ''rpc: POST method required, received %q'' [hr_Method r]),
                   dispatched = []\<rparr>, s)
      else
        case select_codec ext s r of
          Inl es \<Rightarrow> Inr (\<lparr>client = w @ map W es, dispatched = []\<rparr>, s)
        | Inr None \<Rightarrow> Inl nil_pointer_dereference
        | Inr (Some codec) \<Rightarrow> Inr (serve_codec ext s r w codec))"


section \<open>Vocabulary of the statements\<close>

text \<open>
  What one exported field whose walk succeeds puts into the map of its struct, as the code
  decides it: the fields of the child when the field is anonymous and the child is an
  object with at least one field, otherwise the child under the field's key.
\<close>

definition field_entries :: "stdlib \<Rightarrow> rtype StructField \<Rightarrow> (string, Type) fmap" where
  "field_entries lib f =
     (case processType lib (f_Type f) of
        Inl err \<Rightarrow> fmempty
      | Inr innerT \<Rightarrow>
          (case ObjectOf innerT of
             Some c \<Rightarrow>
               if f_Anonymous f \<and> c \<noteq> fmempty then c
               else fmupd (getFieldKey f) innerT fmempty
           | None \<Rightarrow> fmupd (getFieldKey f) innerT fmempty))"

text \<open>
  The same in the words of the specification: the fields of the child whenever the field
  is anonymous and the child is an object, with no condition on the number of its fields.
\<close>

definition spec_field_entries :: "stdlib \<Rightarrow> rtype StructField \<Rightarrow> (string, Type) fmap" where
  "spec_field_entries lib f =
     (case processType lib (f_Type f) of
        Inl err \<Rightarrow> fmempty
      | Inr innerT \<Rightarrow>
          (case ObjectOf innerT of
             Some c \<Rightarrow>
               if f_Anonymous f then c
               else fmupd (getFieldKey f) innerT fmempty
           | None \<Rightarrow> fmupd (getFieldKey f) innerT fmempty))"

text \<open>
  The entries of the exported fields merged in textual order, a later field overwriting
  the keys of an earlier one.
\<close>

definition merge_fields ::
  "stdlib \<Rightarrow> (rtype StructField \<Rightarrow> (string, Type) fmap) \<Rightarrow> rtype StructField list
     \<Rightarrow> (string, Type) fmap" where
  "merge_fields lib entries fs =
     foldl (\<lambda>m f. fmadd m (entries f)) fmempty (filter (\<lambda>f. isExported lib (f_Name f)) fs)"

text \<open>
  The standard library on ASCII strings, for the examples: the first rune is the first
  byte (the error rune U+FFFD for the empty string) and the upper-case letters are
  \<open>A\<close> to \<open>Z\<close>. On the names of the examples this is what Go computes.
\<close>

definition ascii_stdlib :: stdlib where
  "ascii_stdlib =
     \<lparr>utf8_DecodeRuneInString =
        (\<lambda>s. case s of [] \<Rightarrow> (65533, 0) | c # _ \<Rightarrow> (of_char c, 1)),
      unicode_IsUpper = (\<lambda>r. 65 \<le> r \<and> r \<le> 90)\<rparr>"

text \<open>The argument types of the repository's tests (server_test.go).\<close>

definition FooArgs :: rtype where
  "FooArgs = T_Struct
     [StructField ''A'' ''a'' False (T_Other K_Int),
      StructField ''B'' ''b'' False (T_Other K_String)]"

definition BazArgs :: rtype where
  "BazArgs = T_Struct [StructField ''AA'' ''aa'' False (T_Other K_Int)]"

definition BarArgs_fields :: "rtype StructField list" where
  "BarArgs_fields =
     [StructField ''A'' ''a'' False (T_Other K_Int),
      StructField ''B'' ''b'' False (T_Slice (T_Other K_Int)),
      StructField ''C'' ''c'' False (T_Slice FooArgs),
      StructField ''D'' ''d'' False (T_Map (T_Other K_String) typeOfEmptyInterface),
      StructField ''BazArgs'' [] True BazArgs]"

text \<open>\<open>struct { Empty }\<close> with \<open>type Empty struct{}\<close>.\<close>

definition Embedded_empty :: "rtype StructField list" where
  "Embedded_empty = [StructField ''Empty'' [] True (T_Struct [])]"








text \<open>What the run of a callback writes to the client, through the codec request.\<close>

primrec written :: "('v, 'w) externals \<Rightarrow> 'v script \<Rightarrow> 'v Request \<Rightarrow> 'v event list" where
  "written ext Return r = []"
| "written ext (CallMethod k) r = written ext (k (Method r)) r"
| "written ext (CallWriteError status err k) r =
     Codec_WriteError status err # written ext k (WriteError status err r)"
| "written ext (CallWriteResponse i k) r =
     Codec_WriteResponse (Value i) # written ext k (WriteResponse i r)"
| "written ext (CallReadRequest v k) r = written ext (k (ReadRequest ext r v)) r"
| "written ext (CallUpdateRequest method params k) r =
     written ext (k (fst (UpdateRequest ext method params r)))
       (snd (UpdateRequest ext method params r))"

text \<open>A call of \<open>w.Header().Add\<close> in the client's log.\<close>

definition is_Header_Add :: "'v event \<Rightarrow> bool" where
  "is_Header_Add e = (case e of W (Header_Add k v) \<Rightarrow> True | _ \<Rightarrow> False)"

text \<open>The four CORS headers of the specification, for an origin.\<close>

definition cors_four :: "string \<Rightarrow> wevent list" where
  "cors_four origin =
     [Header_Add ''Access-Control-Allow-Origin'' origin,
      Header_Add ''Access-Control-Allow-Methods'' ''GET, POST, OPTIONS'',
      Header_Add ''Access-Control-Allow-Credentials'' ''true'',
      Header_Add ''Access-Control-Allow-Headers''
        ''DNT, User-Agent, X-Requested-With, Content-Type'']"

text \<open>
  A small configuration for the examples, after the repository's tests: a codec whose
  body is the method, a space and the parameters; collaborators that resolve every host to
  one address, parse only \<open>http://host\<close>, lower-case the letters \<open>A\<close> to \<open>Z\<close> and find the
  backend down; a request whose content type is \<open>Application/JSON\<close> with a parameter; a
  backup handler
  answering \<open>{A:5}\<close>; the callback of gateway_test.go, which answers
  \<open>TestEndpoint.Bar\<close> itself when the argument is 5; a gateway that knows
  \<open>TestEndpoint.Bar\<close> at the URL stored at address 0.
\<close>

definition toy_codec :: "string Codec" where
  "toy_codec r =
     \<lparr>codec_Method = Inr (takeWhile (\<lambda>c. c \<noteq> CHR '' '') (hr_Body r)),
      codec_ReadRequest = (\<lambda>v. (None, tl (dropWhile (\<lambda>c. c \<noteq> CHR '' '') (hr_Body r)))),
      codec_ReadRequestRaw = Inr (tl (dropWhile (\<lambda>c. c \<noteq> CHR '' '') (hr_Body r)))\<rparr>"

definition toy_URL :: "string \<Rightarrow> URL" where
  "toy_URL host =
     \<lparr>URL_Scheme = ''http'', URL_Opaque = [], URL_User = None, URL_Host = host,
      URL_Path = [], URL_RawPath = [], URL_RawQuery = [], URL_Fragment = []\<rparr>"

definition ascii_ToLower :: "string \<Rightarrow> string" where
  "ascii_ToLower =
     map (\<lambda>c. case map_of (zip ''ABCDEFGHIJKLMNOPQRSTUVWXYZ'' ''abcdefghijklmnopqrstuvwxyz'') c of
                Some l \<Rightarrow> l
              | None \<Rightarrow> c)"

definition toy_ext :: "(string, unit) externals" where
  "toy_ext =
     \<lparr>MaybeSRV = (\<lambda>w host. (''10.0.0.7:8887'', w)),
      url_Parse = (\<lambda>u. if take 7 u = ''http://'' then Inr (toy_URL (drop 7 u))
                         else Inl (errors_New ''parse error'')),
      URL_String = (\<lambda>u. URL_Scheme u @ ''://'' @ URL_Host u @ URL_Path u),
      JSONRPC2Call_GetServices = (\<lambda>w u. (Inl (errors_New ''connection refused''), w)),
      Sprintf = (\<lambda>msg as. msg),
      strings_ToLower = ascii_ToLower,
      DefaultClient_Do = (\<lambda>r u. Inl (errors_New ''connection refused'')),
      json_Marshal = (\<lambda>v. Inr v),
      json_Unmarshal = (\<lambda>b v. (None, b)),
      EncodeClientRequest = (\<lambda>m a. Inr (m @ '' '' @ a)),
      DecodeClientResponse = (\<lambda>b. Inr b)\<rparr>"

definition toy_backup :: Handler where
  "toy_backup r u = [Write ''{A:5}'']"

definition toy_callback :: "string Request \<Rightarrow> string script" where
  "toy_callback req =
     CallMethod (\<lambda>m.
       if m \<noteq> Inr ''TestEndpoint.Bar'' then Return
       else CallReadRequest [] (\<lambda>res.
         if fst res \<noteq> None then CallWriteError 400 (errors_New ''couldn't read args'') Return
         else if snd res = ''5'' then CallWriteResponse ''{Success:true}'' Return
         else Return))"

definition toy_gateway :: "(string, unit) state" where
  "toy_gateway =
     \<lparr>services =
        fmupd ''TestEndpoint''
          \<lparr>Service_Name = ''TestEndpoint'',
           Service_Methods =
             fmupd ''Bar'' \<lparr>Method_Name = ''Bar'', Method_Args = None, Method_Returns = None\<rparr>
               fmempty,
           rsrv_URL = Some 0, origURL = ''http://backend''\<rparr> fmempty,
      codecs = fmupd ''application/json'' toy_codec fmempty,
      srv = (),
      BackupHandler = None,
      RequestCallback = None,
      CORSMatch = Some (\<lambda>origin. origin = ''http://example.com''),
      heap = (\<lambda>a. toy_URL ''backend''),
      brk = 1,
      refreshing = 0\<rparr>"

definition toy_post :: "string \<Rightarrow> http_Request" where
  "toy_post body =
     \<lparr>hr_Method = ''POST'',
      hr_Header = fmupd ''Content-Type'' ''Application/JSON; charset=utf-8''
                    (fmupd ''Origin'' ''http://example.com'' fmempty),
      hr_URL = None, hr_RequestURI = ''/'', hr_Body = body,
      hr_ContentLength = int (length body)\<rparr>"

definition toy_options :: http_Request where
  "toy_options = (toy_post [])\<lparr>hr_Method := ''OPTIONS''\<rparr>"

definition toy_request :: "string Request" where
  "toy_request =
     new_Request (toy_post ''TestEndpoint.Bar 5'') zero_remoteService zero_Method []
       (toy_codec (toy_post ''TestEndpoint.Bar 5''))"



section \<open>The type walk\<close>

lemmas walk_eval =
  processType.simps indirect_def isExported_def ascii_stdlib_def getFieldKey_def len_map_def
  copy_into_def typeOfEmptyInterface_def

lemma len_map_pos: "0 < len_map om \<longleftrightarrow> (\<exists>m. om = Some m \<and> m \<noteq> fmempty)"
proof -
  have "fmdom m = {||} \<longleftrightarrow> m = fmempty" for m :: "('a, 'b) fmap"
    by (metis fmap_ext fmdom_notD fmdom_empty fempty_iff fmempty_lookup)
  then show ?thesis
    by (cases om) (simp_all add: len_map_def fcard_0_eq zero_less_iff_neq_zero)
qed

lemma walk_interface:
  "indirect t0 = T_Interface n ms \<Longrightarrow>
   processType lib t0 =
     (if n = [] \<and> ms = [] then Inr (Type K_Interface None None None)
      else Inl (Errorf ''unsupported interface: %v'' (T_Interface n ms)))"
  by (simp add: processType.simps [of lib t0] typeOfEmptyInterface_def)


lemma walk_struct:
  "indirect t0 = T_Struct fs \<Longrightarrow>
   processType lib t0 =
     (case processFields lib fs fmempty of
        Inl err \<Rightarrow> Inl err
      | Inr m \<Rightarrow> Inr (Type K_Invalid None (Some m) None))"
  by (simp add: processType.simps [of lib t0])

subsection \<open>Registration stops at the first type that does not walk\<close>



subsection \<open>The fields of a struct\<close>

lemma fmadd_single: "fmadd m (fmupd k v fmempty) = fmupd k v m"
  by (simp add: fmadd_fmupd)

lemma processFields_ok:
  "\<forall>f\<in>set fs. isExported lib (f_Name f) \<longrightarrow> (\<exists>ty. processType lib (f_Type f) = Inr ty) \<Longrightarrow>
   processFields lib fs m =
     Inr (foldl (\<lambda>m f. fmadd m (field_entries lib f)) m (filter (\<lambda>f. isExported lib (f_Name f)) fs))"
proof (induction fs arbitrary: m)
  case Nil
  then show ?case by simp
next
  case (Cons f fs)
  show ?case
  proof (cases "isExported lib (f_Name f)")
    case False
    with Cons show ?thesis by simp
  next
    case True
    with Cons.prems obtain innerT where w: "processType lib (f_Type f) = Inr innerT" by auto
    have step: "processFields lib (f # fs) m = processFields lib fs (fmadd m (field_entries lib f))"
    proof (cases "f_Anonymous f \<and> len_map (ObjectOf innerT) > 0")
      case True
      then obtain c where c: "ObjectOf innerT = Some c" "c \<noteq> fmempty"
        by (auto simp: len_map_pos)
      with True w \<open>isExported lib (f_Name f)\<close> show ?thesis
        by (simp add: field_entries_def copy_into_def)
    next
      case False
      then have "field_entries lib f = fmupd (getFieldKey f) innerT fmempty"
        using w by (auto simp: field_entries_def len_map_pos split: option.splits)
      with False w \<open>isExported lib (f_Name f)\<close> show ?thesis
        by (auto simp add: fmadd_single)
    qed
    from Cons.prems
    have "\<forall>f\<in>set fs. isExported lib (f_Name f) \<longrightarrow> (\<exists>ty. processType lib (f_Type f) = Inr ty)"
      by simp
    from Cons.IH [OF this] step True show ?thesis by simp
  qed
qed

lemma lookup_foldl_fmadd:
  "fmlookup (foldl (\<lambda>m f. fmadd m (g f)) m0 xs) k =
     (case find (\<lambda>f. k |\<in>| fmdom (g f)) (rev xs) of
        None \<Rightarrow> fmlookup m0 k
      | Some f \<Rightarrow> fmlookup (g f) k)"
  by (induction xs rule: rev_induct) simp_all

text \<open>
  C1, as the code has it. For a struct type (behind at most one pointer) whose exported
  fields all walk: the result is an object arm; an anonymous field whose walk is an object
  with at least one field has that object's fields merged in, and every other exported
  field (not anonymous, or anonymous with a walk that is no object, or an object with no
  field) is entered under its wire key. A key's type is the one given by the last field, in
  textual order, that enters the key.
\<close>

theorem struct_fields_flattened:
  assumes "indirect t0 = T_Struct fs"
    and "\<forall>f\<in>set fs. isExported lib (f_Name f) \<longrightarrow> (\<exists>ty. processType lib (f_Type f) = Inr ty)"
  shows "processType lib t0 = Inr (Type K_Invalid None (Some (merge_fields lib (field_entries lib) fs)) None)
    \<and> (\<forall>k. fmlookup (merge_fields lib (field_entries lib) fs) k =
          (case find (\<lambda>f. k |\<in>| fmdom (field_entries lib f))
                  (rev (filter (\<lambda>f. isExported lib (f_Name f)) fs)) of
             None \<Rightarrow> None
           | Some f \<Rightarrow> fmlookup (field_entries lib f) k))"
proof -
  have "processType lib t0 = Inr (Type K_Invalid None (Some (merge_fields lib (field_entries lib) fs)) None)"
    using processFields_ok [OF assms(2), of fmempty] walk_struct [OF assms(1)]
    by (simp add: merge_fields_def)
  moreover have "fmlookup (merge_fields lib (field_entries lib) fs) k =
          (case find (\<lambda>f. k |\<in>| fmdom (field_entries lib f))
                  (rev (filter (\<lambda>f. isExported lib (f_Name f)) fs)) of
             None \<Rightarrow> None
           | Some f \<Rightarrow> fmlookup (field_entries lib f) k)" for k
    unfolding merge_fields_def lookup_foldl_fmadd by (simp split: option.split)
  ultimately show ?thesis by blast
qed

text \<open>
  The walk of \<open>*BarArgs\<close> of the tests: the embedded \<open>BazArgs\<close> gives the key \<open>aa\<close> and no key
  of its own name.
\<close>

theorem struct_fields_flattened_witness:
  "processType ascii_stdlib (T_Ptr (T_Struct BarArgs_fields)) =
     Inr (Type K_Invalid None (Some (merge_fields ascii_stdlib (field_entries ascii_stdlib) BarArgs_fields)) None)
   \<and> fmlookup (merge_fields ascii_stdlib (field_entries ascii_stdlib) BarArgs_fields) ''aa'' = Some (Type K_Int None None None)
   \<and> fmlookup (merge_fields ascii_stdlib (field_entries ascii_stdlib) BarArgs_fields) ''d''
       = Some (Type K_Invalid None None (Some (Type K_Interface None None None)))
   \<and> fmlookup (merge_fields ascii_stdlib (field_entries ascii_stdlib) BarArgs_fields) ''BazArgs'' = None"
proof -
  have 1: "indirect (T_Ptr (T_Struct BarArgs_fields)) = T_Struct BarArgs_fields"
    by (simp add: indirect_def)
  have 2: "\<forall>f\<in>set BarArgs_fields.
      isExported ascii_stdlib (f_Name f) \<longrightarrow> (\<exists>ty. processType ascii_stdlib (f_Type f) = Inr ty)"
    by (simp add: BarArgs_fields_def FooArgs_def BazArgs_def walk_eval)
  have 3: "merge_fields ascii_stdlib (field_entries ascii_stdlib) BarArgs_fields =
      fmupd ''aa'' (Type K_Int None None None)
       (fmupd ''d'' (Type K_Invalid None None (Some (Type K_Interface None None None)))
         (fmupd ''c'' (Type K_Invalid (Some (Type K_Invalid None
               (Some (fmupd ''b'' (Type K_String None None None)
                       (fmupd ''a'' (Type K_Int None None None) fmempty))) None)) None None)
           (fmupd ''b'' (Type K_Invalid (Some (Type K_Int None None None)) None None)
             (fmupd ''a'' (Type K_Int None None None) fmempty))))"
    by (simp add: merge_fields_def BarArgs_fields_def FooArgs_def BazArgs_def field_entries_def
        walk_eval fmadd_single)
  show ?thesis
    using struct_fields_flattened [OF 1 2] by (simp add: 3)
qed

text \<open>
  C1 as stated fails on \<open>struct { Empty }\<close>: the field is exported and anonymous and its walk
  is an object arm with no field, so merging it would leave the enclosing object empty;
  the code enters the empty object under the key \<open>Empty\<close>.
\<close>

theorem embedded_empty_struct_counterexample:
  "isExported ascii_stdlib ''Empty''
   \<and> processType ascii_stdlib (T_Struct []) = Inr (Type K_Invalid None (Some fmempty) None)
   \<and> merge_fields ascii_stdlib (spec_field_entries ascii_stdlib) Embedded_empty = fmempty
   \<and> processType ascii_stdlib (T_Struct Embedded_empty)
       = Inr (Type K_Invalid None
           (Some (fmupd ''Empty'' (Type K_Invalid None (Some fmempty) None) fmempty)) None)
   \<and> processType ascii_stdlib (T_Struct Embedded_empty)
       \<noteq> Inr (Type K_Invalid None (Some (merge_fields ascii_stdlib (spec_field_entries ascii_stdlib) Embedded_empty)) None)"
  by (simp add: Embedded_empty_def merge_fields_def spec_field_entries_def walk_eval)



text \<open>
  C8. An interface type (behind at most one pointer): \<open>interface{}\<close>, the unnamed interface
  with no method, walks to the scalar leaf of kind \<open>Interface\<close>; every other interface type
  fails the walk with the error "unsupported interface".
\<close>

theorem only_empty_interface_walks:
  "indirect t0 = T_Interface n ms \<Longrightarrow>
   processType lib t0 =
     (if T_Interface n ms = typeOfEmptyInterface then Inr (Type K_Interface None None None)
      else Inl (Errorf ''unsupported interface: %v'' (T_Interface n ms)))"
  by (simp add: walk_interface typeOfEmptyInterface_def)

theorem only_empty_interface_walks_witness:
  "indirect (T_Ptr typeOfEmptyInterface) = T_Interface [] []
   \<and> processType ascii_stdlib (T_Ptr typeOfEmptyInterface) = Inr (Type K_Interface None None None)
   \<and> indirect (T_Interface ''error'' [''Error'']) = T_Interface ''error'' [''Error'']
   \<and> processType ascii_stdlib (T_Interface ''error'' [''Error''])
       = Inl (Errorf ''unsupported interface: %v'' (T_Interface ''error'' [''Error'']))"
  using only_empty_interface_walks [where ?t0.0 = "T_Ptr typeOfEmptyInterface" and n = "[]"
      and ms = "[]" and lib = ascii_stdlib]
    only_empty_interface_walks [where ?t0.0 = "T_Interface ''error'' [''Error'']"
      and n = "''error''" and ms = "[''Error'']" and lib = ascii_stdlib]
  by (simp add: indirect_def typeOfEmptyInterface_def)

section \<open>The request context and the callback\<close>

lemma UpdateRequest_frame:
  "responded (snd (UpdateRequest ext method params r)) = responded r
   \<and> respWriter (snd (UpdateRequest ext method params r)) = respWriter r"
  by (simp add: UpdateRequest_def Let_def split: option.splits sum.splits)

lemma run_script_latched: "responded r \<Longrightarrow> responded (run_script ext c r)"
  by (induction c arbitrary: r)
     (simp_all add: WriteError_def WriteResponse_def UpdateRequest_frame)

lemma calls_Write_responded: "calls_Write ext c r \<Longrightarrow> responded (run_script ext c r)"
  by (induction c arbitrary: r)
     (simp_all add: WriteError_def WriteResponse_def UpdateRequest_frame run_script_latched)

lemma run_script_written: "respWriter (run_script ext c r) = respWriter r @ written ext c r"
  by (induction c arbitrary: r)
     (simp_all add: WriteError_def WriteResponse_def UpdateRequest_frame)

lemma calls_Write_written: "calls_Write ext c r \<Longrightarrow> written ext c r \<noteq> []"
  by (induction c arbitrary: r) simp_all

lemma written_codec: "e \<in> set (written ext c r) \<Longrightarrow> \<not> is_Header_Add e"
  by (induction c arbitrary: r) (auto simp: is_Header_Add_def)

lemma getClientRequest_respWriter:
  "respWriter (snd (getClientRequest ext r)) = respWriter r"
  by (simp add: getClientRequest_def split: sum.splits)

section \<open>The handler\<close>

lemmas toy_defs =
  toy_codec_def toy_URL_def toy_ext_def toy_backup_def toy_callback_def toy_gateway_def
  toy_post_def

lemmas gateway_eval =
  ServeHTTP_def serve_codec_def forward_def route_def select_codec_def strip_params_def
  cors_headers_def Header_Get_def ascii_ToLower_def poll_def len_map_def range_first_def
  getMethod_def SplitN2_def resolve_request_def resolveURL_def new_URL_def new_Request_def
  getClientRequest_def Method_def ReadRequest_def WriteError_def WriteResponse_def
  UpdateRequest_def target_ServeHTTP_def externalHandler_def writeErrorf_def
  zero_remoteService_def zero_Method_def Let_def

lemma poll_fields [simp]:
  "services (poll tick s) = services s" "codecs (poll tick s) = codecs s"
  "srv (poll tick s) = srv s" "BackupHandler (poll tick s) = BackupHandler s"
  "RequestCallback (poll tick s) = RequestCallback s" "CORSMatch (poll tick s) = CORSMatch s"
  "heap (poll tick s) = heap s" "brk (poll tick s) = brk s"
  by (simp_all add: poll_def)

lemma poll_getMethod [simp]: "getMethod (poll tick s) m = getMethod s m"
  by (simp add: getMethod_def Let_def)

lemma poll_readers [simp]:
  "cors_headers (poll tick s) r = cors_headers s r"
  "select_codec ext (poll tick s) r = select_codec ext s r"
  "route (poll tick s) m = route s m"
  by (simp_all add: cors_headers_def select_codec_def route_def Let_def
      split: prod.splits option.splits)

lemma forward_responded:
  assumes "RequestCallback s = Some cb"
    and "resolve_request ext rsrv r s = (r1, s1)"
    and "req = new_Request r1 rsrv rpcMethod w cr"
    and "calls_Write ext (cb req) req"
  shows "forward ext s r w cr (handler, rsrv, rpcMethod)
       = (\<lparr>client = w @ written ext (cb req) req, dispatched = []\<rparr>, s1)"
proof -
  have "responded (run_script ext (cb req) req)"
    using assms(4) by (rule calls_Write_responded)
  moreover have "respWriter (run_script ext (cb req) req) = w @ written ext (cb req) req"
    by (simp add: run_script_written assms(3) new_Request_def)
  ultimately show ?thesis
    using assms(1,2,3) by (simp add: forward_def Let_def)
qed

lemma ServeHTTP_routed:
  assumes "hr_Method r = ''POST''"
    and "select_codec ext s r = Inr (Some codec)"
    and "codec_Method (codec r) = Inr m"
    and "route s m = Inr routed"
  shows "ServeHTTP ext tick r s =
     Inr (forward ext (poll tick s) (r\<lparr>hr_Body := []\<rparr>) (map W (cors_headers s r)) (codec r)
            routed)"
  using assms by (simp add: ServeHTTP_def serve_codec_def Let_def)

lemma getMethod_malformed:
  "CHR ''.'' \<notin> set m \<Longrightarrow>
   getMethod s m = (zero_remoteService, zero_Method, Some (errors_New ''invalid method endpoint given''))"
  by (simp add: getMethod_def SplitN2_def)

lemma fcard_one_single: "fcard A = 1 \<Longrightarrow> \<exists>k. A = {|k|}"
proof -
  assume "fcard A = 1"
  then have "card (fset A) = 1" by (simp add: fcard.rep_eq)
  then obtain k where "fset A = {k}" by (auto simp: card_1_singleton_iff)
  then have "A = {|k|}" by (metis fset_simps(1) fset_simps(2) fset_inject)
  then show ?thesis by blast
qed

lemma fcard_one_fmap:
  assumes "fcard (fmdom m) = 1"
  shows "\<exists>k v. m = fmupd k v fmempty"
proof -
  from fcard_one_single [OF assms] obtain k where k: "fmdom m = {|k|}"
    by blast
  then obtain v where v: "fmlookup m k = Some v"
    by (metis finsertI1 fmdom_notI option.exhaust)
  have "m = fmupd k v fmempty"
  proof (rule fmap_ext)
    fix x
    show "fmlookup m x = fmlookup (fmupd k v fmempty) x"
      using k v by (cases "x = k") (auto simp: fmdom_notD)
  qed
  then show ?thesis by blast
qed

lemma range_first_single: "range_first (fmupd k v fmempty) = Some v"
  by (simp add: range_first_def)

lemma forward_client:
  "\<exists>rest. client (fst (forward ext s r w cr routed)) = w @ rest
      \<and> (\<forall>e\<in>set rest. \<not> is_Header_Add e)"
proof -
  obtain handler rsrv rpcMethod where routed: "routed = (handler, rsrv, rpcMethod)"
    by (cases routed) auto
  obtain r1 s1 where rr: "resolve_request ext rsrv r s = (r1, s1)"
    by (cases "resolve_request ext rsrv r s") auto
  define req where "req = new_Request r1 rsrv rpcMethod w cr"
  define req1 where "req1 = (case RequestCallback s of
      Some cb \<Rightarrow> run_script ext (cb req) req | None \<Rightarrow> req)"
  have w1: "\<exists>rest. respWriter req1 = w @ rest \<and> (\<forall>e\<in>set rest. \<not> is_Header_Add e)"
  proof (cases "RequestCallback s")
    case None
    then show ?thesis by (simp add: req1_def req_def new_Request_def)
  next
    case (Some cb)
    then have "respWriter req1 = w @ written ext (cb req) req"
      by (simp add: req1_def run_script_written) (simp add: req_def new_Request_def)
    then show ?thesis using written_codec by blast
  qed
  then obtain rest where rest: "respWriter req1 = w @ rest" "\<forall>e\<in>set rest. \<not> is_Header_Add e"
    by blast
  have fw: "forward ext s r w cr routed =
      (if responded req1 then (\<lparr>client = respWriter req1, dispatched = []\<rparr>, s1)
       else
         (case getClientRequest ext req1 of
            (Inl err, req2) \<Rightarrow>
              (\<lparr>client = respWriter req2 @ [Codec_WriteError 500 err], dispatched = []\<rparr>, s1)
          | (Inr b, req2) \<Rightarrow>
              let r2 = (Request_http req2)\<lparr>hr_Body := b, hr_ContentLength := int (length b)\<rparr>;
                  u = map_option (heap s1) (hr_URL r2);
                  rec = target_ServeHTTP ext handler r2 u;
                  answer = (case DecodeClientResponse ext (rec_Body rec) of
                              Inl err \<Rightarrow> Codec_WriteError (rec_Code rec) err
                            | Inr resRes \<Rightarrow> Codec_WriteResponse (RawMessage resRes))
              in (\<lparr>client = respWriter req2 @ [answer], dispatched = [(handler, r2, u)]\<rparr>,
                  s1)))"
    unfolding req1_def req_def by (simp add: routed forward_def rr Let_def)
  obtain x req2 where g: "getClientRequest ext req1 = (x, req2)"
    by (cases "getClientRequest ext req1") auto
  then have r2: "respWriter req2 = respWriter req1"
    using getClientRequest_respWriter [of ext req1] by simp
  have "\<exists>y. client (fst (forward ext s r w cr routed)) = respWriter req1 @ y
      \<and> (\<forall>e\<in>set y. \<not> is_Header_Add e)"
  proof (cases "responded req1")
    case True
    then show ?thesis by (simp add: fw)
  next
    case False
    then show ?thesis
      by (cases x) (simp_all add: fw g r2 Let_def is_Header_Add_def split: sum.splits)
  qed
  then obtain y where "client (fst (forward ext s r w cr routed)) = w @ (rest @ y)"
    "\<forall>e\<in>set y. \<not> is_Header_Add e"
    using rest by auto
  with rest(2) show ?thesis
    by (metis Un_iff set_append)
qed

lemma serve_codec_client:
  "\<exists>rest. client (fst (serve_codec ext s r w codec)) = w @ rest
      \<and> (\<forall>e\<in>set rest. \<not> is_Header_Add e)"
  using forward_client [of ext s "r\<lparr>hr_Body := []\<rparr>" w "codec r"]
  by (auto simp: serve_codec_def Let_def is_Header_Add_def split: sum.splits)

lemma select_codec_415:
  "select_codec ext s r = Inl es \<Longrightarrow> \<forall>e\<in>set (map W es). \<not> is_Header_Add e"
  by (auto simp: select_codec_def Let_def writeErrorf_def is_Header_Add_def
      split: if_splits option.splits)

lemma ServeHTTP_client:
  assumes "ServeHTTP ext tick r s = Inr (res, s')"
  shows "\<exists>rest. client res = map W (cors_headers s r) @ rest
      \<and> (\<forall>e\<in>set rest. \<not> is_Header_Add e)"
proof (cases "hr_Method r = ''OPTIONS''")
  case True
  with assms show ?thesis by (auto simp: ServeHTTP_def Let_def)
next
  case notopt: False
  show ?thesis
  proof (cases "hr_Method r = ''POST''")
    case False
    with notopt assms show ?thesis
      by (auto simp: ServeHTTP_def Let_def writeErrorf_def is_Header_Add_def)
  next
    case True
    show ?thesis
    proof (cases "select_codec ext s r")
      case (Inl es)
      with True notopt assms select_codec_415 [OF Inl] show ?thesis
        by (auto simp: ServeHTTP_def Let_def)
    next
      case (Inr oc)
      with True notopt assms have
        "\<exists>codec. res = fst (serve_codec ext (poll tick s) r (map W (cors_headers s r)) codec)"
        by (cases oc) (auto simp: ServeHTTP_def Let_def, metis fst_conv)
      then show ?thesis using serve_codec_client by blast
    qed
  qed
qed

section \<open>The registry is kept\<close>





















lemma AddURL_fails_frame:
  "fst (AddURL ext u0 s) \<noteq> None \<Longrightarrow> services (snd (AddURL ext u0 s)) = services s"
  by (auto simp: AddURL_def Let_def new_URL_def resolveURL_def
      split: sum.splits prod.splits if_splits)


section \<open>The claims about the gateway\<close>

text \<open>
  C2. \<open>WriteError\<close> and \<open>WriteResponse\<close> set the responded flag, and a callback whose run
  calls one of them returns with the flag set, whatever it calls afterwards. For a routed
  POST request with such a callback, the handler ends after the callback: nothing is
  dispatched to the forwarder or the backup handler, no client envelope is built, and the
  client's log is the CORS headers followed by exactly what the callback wrote.
\<close>

theorem callback_response_is_final:
  "responded (WriteError status err r0) \<and> responded (WriteResponse i r0)
   \<and> (calls_Write ext c r0 \<longrightarrow> responded (run_script ext c r0))
   \<and> (hr_Method r = ''POST'' \<and> select_codec ext s r = Inr (Some codec)
        \<and> codec_Method (codec r) = Inr m \<and> route s m = Inr (handler, rsrv, rpcMethod)
        \<and> RequestCallback s = Some cb
        \<and> resolve_request ext rsrv (r\<lparr>hr_Body := []\<rparr>) (poll tick s) = (r1, s1)
        \<and> req = new_Request r1 rsrv rpcMethod (map W (cors_headers s r)) (codec r)
        \<and> calls_Write ext (cb req) req
      \<longrightarrow> ServeHTTP ext tick r s =
            Inr (\<lparr>client = map W (cors_headers s r) @ written ext (cb req) req,
                  dispatched = []\<rparr>, s1)
          \<and> written ext (cb req) req \<noteq> [])"
proof -
  have "ServeHTTP ext tick r s =
            Inr (\<lparr>client = map W (cors_headers s r) @ written ext (cb req) req,
                  dispatched = []\<rparr>, s1)"
    if a: "hr_Method r = ''POST''" "select_codec ext s r = Inr (Some codec)"
      "codec_Method (codec r) = Inr m" "route s m = Inr (handler, rsrv, rpcMethod)"
      "RequestCallback s = Some cb"
      "resolve_request ext rsrv (r\<lparr>hr_Body := []\<rparr>) (poll tick s) = (r1, s1)"
      "req = new_Request r1 rsrv rpcMethod (map W (cors_headers s r)) (codec r)"
      "calls_Write ext (cb req) req"
  proof -
    from a(5) have cbp: "RequestCallback (poll tick s) = Some cb" by simp
    from ServeHTTP_routed [OF a(1-4), of tick] forward_responded [OF cbp a(6-8)]
    show ?thesis by simp
  qed
  moreover have "responded (WriteError status err r0)" "responded (WriteResponse i r0)"
    by (simp_all add: WriteError_def WriteResponse_def)
  moreover have "calls_Write ext c r0 \<longrightarrow> responded (run_script ext c r0)"
    by (simp add: calls_Write_responded)
  moreover have "calls_Write ext (cb req) req \<longrightarrow> written ext (cb req) req \<noteq> []"
    by (simp add: calls_Write_written)
  ultimately show ?thesis by blast
qed

theorem callback_response_is_final_witness:
  "hr_Method (toy_post ''TestEndpoint.Bar 5'') = ''POST''
   \<and> calls_Write toy_ext
        (toy_callback
          (new_Request ((toy_post ''TestEndpoint.Bar 5'')\<lparr>hr_Body := [], hr_URL := Some 1, hr_RequestURI := []\<rparr>)
             (the (fmlookup (services toy_gateway) ''TestEndpoint''))
             \<lparr>Method_Name = ''Bar'', Method_Args = None, Method_Returns = None\<rparr>
             (map W (cors_four ''http://example.com'')) (toy_codec (toy_post ''TestEndpoint.Bar 5''))))
        (new_Request ((toy_post ''TestEndpoint.Bar 5'')\<lparr>hr_Body := [], hr_URL := Some 1, hr_RequestURI := []\<rparr>)
             (the (fmlookup (services toy_gateway) ''TestEndpoint''))
             \<lparr>Method_Name = ''Bar'', Method_Args = None, Method_Returns = None\<rparr>
             (map W (cors_four ''http://example.com'')) (toy_codec (toy_post ''TestEndpoint.Bar 5'')))
   \<and> (\<exists>s1. ServeHTTP toy_ext True (toy_post ''TestEndpoint.Bar 5'')
              (toy_gateway\<lparr>RequestCallback := Some toy_callback\<rparr>)
        = Inr (\<lparr>client = map W (cors_four ''http://example.com'')
                   @ [Codec_WriteResponse (Value ''{Success:true}'')],
                dispatched = []\<rparr>, s1))"
proof -
  let ?r = "toy_post ''TestEndpoint.Bar 5''"
  let ?s = "toy_gateway\<lparr>RequestCallback := Some toy_callback\<rparr>"
  let ?rsrv = "the (fmlookup (services toy_gateway) ''TestEndpoint'')"
  let ?m = "\<lparr>Method_Name = ''Bar'', Method_Args = None, Method_Returns = None\<rparr>"
  let ?r1 = "?r\<lparr>hr_Body := [], hr_URL := Some 1, hr_RequestURI := []\<rparr>"
  let ?s1 = "?s\<lparr>heap := (heap ?s)(1 := toy_URL ''10.0.0.7:8887''), brk := 2,
      refreshing := 1\<rparr>"
  let ?req = "new_Request ?r1 ?rsrv ?m (map W (cors_four ''http://example.com'')) (toy_codec ?r)"
  have 1: "hr_Method ?r = ''POST''" by (simp add: toy_post_def)
  have 2: "select_codec toy_ext ?s ?r = Inr (Some toy_codec)"
    by (simp add: gateway_eval toy_gateway_def toy_post_def toy_ext_def)
  have 3: "codec_Method (toy_codec ?r) = Inr ''TestEndpoint.Bar''"
    by (simp add: toy_codec_def toy_post_def)
  have 4: "route ?s ''TestEndpoint.Bar'' = Inr (External, ?rsrv, ?m)"
    by (simp add: gateway_eval toy_gateway_def)
  have 5: "RequestCallback ?s = Some toy_callback" by simp
  have 6: "resolve_request toy_ext ?rsrv (?r\<lparr>hr_Body := []\<rparr>) (poll True ?s) = (?r1, ?s1)"
    by (simp add: gateway_eval toy_gateway_def toy_post_def toy_ext_def toy_URL_def)
  have 7: "cors_headers ?s ?r = cors_four ''http://example.com''"
    by (simp add: cors_headers_def Header_Get_def toy_gateway_def toy_post_def cors_four_def)
  have 8: "calls_Write toy_ext (toy_callback ?req) ?req"
    by (simp add: toy_callback_def new_Request_def Method_def ReadRequest_def toy_codec_def
        toy_post_def)
  have 9: "written toy_ext (toy_callback ?req) ?req = [Codec_WriteResponse (Value ''{Success:true}'')]"
    by (simp add: toy_callback_def new_Request_def Method_def ReadRequest_def toy_codec_def
        toy_post_def)
  from callback_response_is_final [where status = 0 and err = "errors_New []" and ?r0.0 = ?req
      and i = "[]" and ext = toy_ext and c = Return and r = ?r and s = ?s and codec = toy_codec
      and m = "''TestEndpoint.Bar''" and handler = External and rsrv = ?rsrv and rpcMethod = ?m
      and cb = toy_callback and ?r1.0 = ?r1 and ?s1.0 = ?s1 and req = ?req and tick = True]
    1 2 3 4 5 6 7 8 9
  show ?thesis by auto
qed

text \<open>
  C3, as the code has it. A decoded POST request whose method has no \<open>.\<close> (so that it does
  not split into two segments): without a backup handler the answer is the error "invalid
  method endpoint given" with status 400 through the codec request, no service is looked
  up and nothing is dispatched; with a backup handler the request is not refused but goes
  on, with the backup handler as its target.
\<close>

theorem malformed_method_routing:
  assumes "hr_Method r = ''POST''"
    and "select_codec ext s r = Inr (Some codec)"
    and "codec_Method (codec r) = Inr m"
    and "CHR ''.'' \<notin> set m"
  shows "(BackupHandler s = None \<longrightarrow>
            ServeHTTP ext tick r s =
              Inr (\<lparr>client = map W (cors_headers s r)
                       @ [Codec_WriteError 400 (errors_New ''invalid method endpoint given'')],
                    dispatched = []\<rparr>, poll tick s))
       \<and> (\<forall>h. BackupHandler s = Some h \<longrightarrow>
            ServeHTTP ext tick r s =
              Inr (forward ext (poll tick s) (r\<lparr>hr_Body := []\<rparr>) (map W (cors_headers s r))
                     (codec r) (Backup h, zero_remoteService, zero_Method)))"
  using assms(1-3) getMethod_malformed [OF assms(4), of s]
  by (auto simp: ServeHTTP_def serve_codec_def route_def Let_def)

theorem malformed_method_routing_witness:
  "hr_Method (toy_post ''foo {}'') = ''POST''
   \<and> select_codec toy_ext toy_gateway (toy_post ''foo {}'') = Inr (Some toy_codec)
   \<and> codec_Method (toy_codec (toy_post ''foo {}'')) = Inr ''foo''
   \<and> CHR ''.'' \<notin> set ''foo''
   \<and> BackupHandler toy_gateway = None
   \<and> ServeHTTP toy_ext False (toy_post ''foo {}'') toy_gateway =
        Inr (\<lparr>client = map W (cors_four ''http://example.com'')
                 @ [Codec_WriteError 400 (errors_New ''invalid method endpoint given'')],
              dispatched = []\<rparr>, toy_gateway)"
proof -
  let ?r = "toy_post ''foo {}''"
  have 1: "hr_Method ?r = ''POST''" by (simp add: toy_post_def)
  have 2: "select_codec toy_ext toy_gateway ?r = Inr (Some toy_codec)"
    by (simp add: gateway_eval toy_gateway_def toy_post_def toy_ext_def)
  have 3: "codec_Method (toy_codec ?r) = Inr ''foo''"
    by (simp add: toy_codec_def toy_post_def)
  have 4: "CHR ''.'' \<notin> set ''foo''" by simp
  have 5: "BackupHandler toy_gateway = None" by (simp add: toy_gateway_def)
  have 6: "cors_headers toy_gateway ?r = cors_four ''http://example.com''"
    by (simp add: cors_headers_def Header_Get_def toy_gateway_def toy_post_def cors_four_def)
  from malformed_method_routing [OF 1 2 3 4, of False] 1 2 3 4 5 6 show ?thesis
    by (simp add: poll_def)
qed

text \<open>
  C3 as stated fails when a backup handler is configured: the method \<open>foo\<close> has one
  segment, and the request is dispatched to the backup handler, whose answer is re-framed
  to the client; no 400 is written.
\<close>

theorem malformed_method_backup_counterexample:
  "codec_Method (toy_codec (toy_post ''foo {}'')) = Inr ''foo''
   \<and> length (SplitN2 ''foo'' CHR ''.'') \<noteq> 2
   \<and> ServeHTTP toy_ext False (toy_post ''foo {}'')
        (toy_gateway\<lparr>BackupHandler := Some toy_backup\<rparr>) =
        Inr (\<lparr>client = map W (cors_four ''http://example.com'')
                 @ [Codec_WriteResponse (RawMessage ''{A:5}'')],
              dispatched =
                [(Backup toy_backup,
                  (toy_post ''foo {}'')\<lparr>hr_URL := None, hr_RequestURI := [],
                      hr_Body := ''foo {}'', hr_ContentLength := 6\<rparr>, None)]\<rparr>,
             toy_gateway\<lparr>BackupHandler := Some toy_backup\<rparr>)
   \<and> ServeHTTP toy_ext False (toy_post ''foo {}'')
        (toy_gateway\<lparr>BackupHandler := Some toy_backup\<rparr>) \<noteq>
        Inr (\<lparr>client = map W (cors_four ''http://example.com'')
                 @ [Codec_WriteError 400 (errors_New ''invalid method endpoint given'')],
              dispatched = []\<rparr>, toy_gateway\<lparr>BackupHandler := Some toy_backup\<rparr>)"
  by (simp add: gateway_eval toy_defs cors_four_def)

text \<open>
  C5. For a POST request, with the content type cut at the first \<open>;\<close> and then
  lower-cased by \<open>strings.ToLower\<close>: a codec registered under that key is used; with an
  empty content type and exactly one registered codec that codec is used; in every other
  case the answer is 415 and nothing else happens. \<open>RegisterCodec\<close> lower-cases the type
  it registers under, so a codec registered for a type serves every request whose cut
  content type lower-cases to the same string.
\<close>

theorem codec_selection:
  assumes "hr_Method r = ''POST''"
    and "contentType = strip_params (Header_Get (hr_Header r) ''Content-Type'')"
    and "w = map W (cors_headers s r)"
  shows "(\<forall>codec. fmlookup (codecs s) (strings_ToLower ext contentType) = Some codec \<longrightarrow>
            ServeHTTP ext tick r s = Inr (serve_codec ext (poll tick s) r w codec))
       \<and> (contentType = [] \<and> fcard (fmdom (codecs s)) = 1 \<longrightarrow>
            (\<exists>k codec. codecs s = fmupd k codec fmempty
               \<and> ServeHTTP ext tick r s = Inr (serve_codec ext (poll tick s) r w codec)))
       \<and> (fmlookup (codecs s) (strings_ToLower ext contentType) = None
            \<and> \<not> (contentType = [] \<and> fcard (fmdom (codecs s)) = 1) \<longrightarrow>
            ServeHTTP ext tick r s =
              Inr (\<lparr>client = w @ map W (writeErrorf ext 415
                                    ''rpc: unrecognized Content-Type: %q'' [contentType]),
                    dispatched = []\<rparr>, poll tick s)
            \<and> rec_Code (writeErrorf ext 415 ''rpc: unrecognized Content-Type: %q''
                           [contentType]) = 415)
       \<and> fmlookup (codecs (RegisterCodec ext c T s)) (strings_ToLower ext T) = Some c
       \<and> (strings_ToLower ext contentType = strings_ToLower ext T \<longrightarrow>
            ServeHTTP ext tick r (RegisterCodec ext c T s) =
              Inr (serve_codec ext (poll tick (RegisterCodec ext c T s)) r w c))"
proof -
  have sel: "ServeHTTP ext tick r s' = Inr (serve_codec ext (poll tick s') r w' codec)"
    if "select_codec ext s' r = Inr (Some codec)" "w' = map W (cors_headers s' r)"
    for s' :: "('a, 'b) state" and w' codec
    using that assms(1) by (simp add: ServeHTTP_def Let_def)
  have single: "\<exists>k codec. codecs s' = fmupd k codec fmempty
               \<and> select_codec ext s' r = Inr (Some codec)"
    if "contentType = []" "fcard (fmdom (codecs s')) = 1" for s' :: "('a, 'b) state"
  proof -
    from fcard_one_fmap [OF that(2)] obtain k codec where kc: "codecs s' = fmupd k codec fmempty"
      by blast
    then have "select_codec ext s' r = Inr (Some codec)"
      using that assms(2)
      by (simp add: select_codec_def len_map_def range_first_single)
    with kc show ?thesis by blast
  qed
  have looked: "select_codec ext s' r = Inr (Some codec)"
    if l: "fmlookup (codecs s') (strings_ToLower ext contentType) = Some codec"
    for s' :: "('a, 'b) state" and codec
  proof (cases "contentType = [] \<and> fcard (fmdom (codecs s')) = 1")
    case True
    with single [of s'] obtain k c' where kc: "codecs s' = fmupd k c' fmempty"
      "select_codec ext s' r = Inr (Some c')"
      by blast
    from l kc(1) have "c' = codec"
      by (simp split: if_splits)
    with kc(2) show ?thesis by simp
  next
    case False
    with l assms(2) show ?thesis
      by (auto simp: select_codec_def len_map_def)
  qed
  have one: "\<exists>k codec. codecs s = fmupd k codec fmempty
               \<and> ServeHTTP ext tick r s = Inr (serve_codec ext (poll tick s) r w codec)"
    if "contentType = []" "fcard (fmdom (codecs s)) = 1"
    using single [OF that] sel [OF _ assms(3)] by blast
  have found: "ServeHTTP ext tick r s = Inr (serve_codec ext (poll tick s) r w codec)"
    if "fmlookup (codecs s) (strings_ToLower ext contentType) = Some codec" for codec
    using sel [OF looked [OF that] assms(3)] .
  have missing: "ServeHTTP ext tick r s =
              Inr (\<lparr>client = w @ map W (writeErrorf ext 415
                                    ''rpc: unrecognized Content-Type: %q'' [contentType]),
                    dispatched = []\<rparr>, poll tick s)"
    if "fmlookup (codecs s) (strings_ToLower ext contentType) = None"
       "\<not> (contentType = [] \<and> fcard (fmdom (codecs s)) = 1)"
  proof -
    from that assms(2) have "select_codec ext s r =
        Inl (writeErrorf ext 415 ''rpc: unrecognized Content-Type: %q'' [contentType])"
      by (auto simp: select_codec_def len_map_def)
    with assms(1,3) show ?thesis by (simp add: ServeHTTP_def Let_def)
  qed
  have code: "rec_Code (writeErrorf ext 415 ''rpc: unrecognized Content-Type: %q''
      [contentType]) = 415"
    by (simp add: writeErrorf_def)
  have reg: "fmlookup (codecs (RegisterCodec ext c T s)) (strings_ToLower ext T) = Some c"
    by (simp add: RegisterCodec_def)
  have registered: "ServeHTTP ext tick r (RegisterCodec ext c T s) =
              Inr (serve_codec ext (poll tick (RegisterCodec ext c T s)) r w c)"
    if "strings_ToLower ext contentType = strings_ToLower ext T"
  proof -
    from reg that
    have "fmlookup (codecs (RegisterCodec ext c T s)) (strings_ToLower ext contentType) = Some c"
      by simp
    from looked [OF this] have "select_codec ext (RegisterCodec ext c T s) r = Inr (Some c)" .
    moreover have "w = map W (cors_headers (RegisterCodec ext c T s) r)"
      by (simp add: assms(3) cors_headers_def RegisterCodec_def)
    ultimately show ?thesis by (rule sel)
  qed
  from one found missing code reg registered show ?thesis by blast
qed

text \<open>
  The request of the examples has the content type \<open>Application/JSON; charset=utf-8\<close>,
  and the codec is registered under \<open>application/json\<close>.
\<close>

theorem codec_selection_witness:
  "hr_Method (toy_post ''TestEndpoint.Bar 5'') = ''POST''
   \<and> strip_params (Header_Get (hr_Header (toy_post ''TestEndpoint.Bar 5'')) ''Content-Type'')
       = ''Application/JSON''
   \<and> strings_ToLower toy_ext ''Application/JSON'' = ''application/json''
   \<and> fmlookup (codecs toy_gateway) ''Application/JSON'' = None
   \<and> fmlookup (codecs toy_gateway) ''application/json'' = Some toy_codec
   \<and> ServeHTTP toy_ext False (toy_post ''TestEndpoint.Bar 5'') toy_gateway
       = Inr (serve_codec toy_ext toy_gateway (toy_post ''TestEndpoint.Bar 5'')
                (map W (cors_four ''http://example.com'')) toy_codec)
   \<and> strip_params (Header_Get (hr_Header ((toy_post [])\<lparr>hr_Header := fmempty\<rparr>)) ''Content-Type'')
       = []
   \<and> fcard (fmdom (codecs toy_gateway)) = 1
   \<and> ServeHTTP toy_ext False ((toy_post [])\<lparr>hr_Header := fmempty\<rparr>) toy_gateway
       = Inr (serve_codec toy_ext toy_gateway ((toy_post [])\<lparr>hr_Header := fmempty\<rparr>) []
                toy_codec)
   \<and> fmlookup (codecs (toy_gateway\<lparr>codecs := fmempty\<rparr>)) (strings_ToLower toy_ext []) = None
   \<and> fcard (fmdom (codecs (toy_gateway\<lparr>codecs := fmempty\<rparr>))) \<noteq> 1
   \<and> ServeHTTP toy_ext False ((toy_post [])\<lparr>hr_Header := fmempty\<rparr>)
         (toy_gateway\<lparr>codecs := fmempty\<rparr>)
       = Inr (\<lparr>client = map W (writeErrorf toy_ext 415
                                 ''rpc: unrecognized Content-Type: %q'' [[]]),
               dispatched = []\<rparr>, toy_gateway\<lparr>codecs := fmempty\<rparr>)"
proof -
  let ?r = "toy_post ''TestEndpoint.Bar 5''"
  let ?q = "(toy_post [])\<lparr>hr_Header := fmempty\<rparr>"
  let ?t = "toy_gateway\<lparr>codecs := fmempty\<rparr>"
  have 1: "hr_Method ?r = ''POST''" "hr_Method ?q = ''POST''" by (simp_all add: toy_post_def)
  have 2: "strip_params (Header_Get (hr_Header ?r) ''Content-Type'') = ''Application/JSON''"
    by (simp add: strip_params_def Header_Get_def toy_post_def)
  have 3: "cors_headers toy_gateway ?r = cors_four ''http://example.com''"
    by (simp add: cors_headers_def Header_Get_def toy_gateway_def toy_post_def cors_four_def)
  have l: "strings_ToLower toy_ext ''Application/JSON'' = ''application/json''"
    by (simp add: toy_ext_def ascii_ToLower_def)
  have 4: "fmlookup (codecs toy_gateway) (strings_ToLower toy_ext ''Application/JSON'')
      = Some toy_codec"
    "fmlookup (codecs toy_gateway) ''Application/JSON'' = None"
    by (simp_all add: l) (simp_all add: toy_gateway_def)
  have 5: "strip_params (Header_Get (hr_Header ?q) ''Content-Type'') = []"
    by (simp add: strip_params_def Header_Get_def)
  have 6: "cors_headers toy_gateway ?q = []" "cors_headers ?t ?q = []"
    by (simp_all add: cors_headers_def Header_Get_def)
  have 7: "fcard (fmdom (codecs toy_gateway)) = 1"
    by (simp add: toy_gateway_def fcard_finsert_if)
  have 8: "codecs toy_gateway = fmupd ''application/json'' toy_codec fmempty"
    by (simp add: toy_gateway_def)
  have 9: "fmlookup (codecs ?t) (strings_ToLower toy_ext []) = None"
    "fcard (fmdom (codecs ?t)) \<noteq> 1"
    by (simp_all add: fcard_fempty)
  from codec_selection [where s = toy_gateway and ext = toy_ext and c = toy_codec and T = "[]"
      and tick = False, OF 1(1) 2 [symmetric] refl] 4 3
  have a: "ServeHTTP toy_ext False ?r toy_gateway
       = Inr (serve_codec toy_ext toy_gateway ?r (map W (cors_four ''http://example.com''))
                toy_codec)"
    by (simp add: poll_def)
  from codec_selection [where s = toy_gateway and ext = toy_ext and c = toy_codec and T = "[]"
      and tick = False, OF 1(2) 5 [symmetric] refl] 7 8 6
  have b: "ServeHTTP toy_ext False ?q toy_gateway
      = Inr (serve_codec toy_ext toy_gateway ?q [] toy_codec)"
    by (auto simp: poll_def dest!: arg_cong [where f = "\<lambda>m. fmlookup m ''application/json''"]
        split: if_splits)
  from codec_selection [where s = ?t and ext = toy_ext and c = toy_codec and T = "[]"
      and tick = False, OF 1(2) 5 [symmetric] refl] 9 6
  have c: "ServeHTTP toy_ext False ?q ?t
       = Inr (\<lparr>client = map W (writeErrorf toy_ext 415
                                 ''rpc: unrecognized Content-Type: %q'' [[]]),
               dispatched = []\<rparr>, ?t)"
    by (simp add: poll_def)
  from 1 2 l 4 5 7 9 a b c show ?thesis by (simp add: l)
qed

text \<open>
  C6. When the request has a non-empty \<open>Origin\<close> that the configured matcher accepts, the
  CORS block adds the four headers of the specification, in order, before anything else
  is written, and no other header is added with \<open>Add\<close> during the handling. An \<open>OPTIONS\<close>
  request then returns with only these headers in the log: no status is written and no
  body, which an HTTP server sends as 200 with an empty body.
\<close>

theorem cors_headers_added:
  assumes "Header_Get (hr_Header r) ''Origin'' = origin"
    and "origin \<noteq> []"
    and "CORSMatch s = Some re"
    and "re origin"
  shows "cors_headers s r = cors_four origin
       \<and> (\<forall>res s'. ServeHTTP ext tick r s = Inr (res, s') \<longrightarrow>
            (\<exists>rest. client res = map W (cors_four origin) @ rest
               \<and> (\<forall>e\<in>set rest. \<not> is_Header_Add e)))
       \<and> (hr_Method r = ''OPTIONS'' \<longrightarrow>
            ServeHTTP ext tick r s =
              Inr (\<lparr>client = map W (cors_four origin), dispatched = []\<rparr>, poll tick s)
            \<and> rec_Code (cors_four origin) = 200 \<and> rec_Body (cors_four origin) = [])"
proof -
  have c: "cors_headers s r = cors_four origin"
    using assms by (simp add: cors_headers_def cors_four_def)
  moreover have "\<exists>rest. client res = map W (cors_four origin) @ rest
               \<and> (\<forall>e\<in>set rest. \<not> is_Header_Add e)"
    if "ServeHTTP ext tick r s = Inr (res, s')" for res s'
    using ServeHTTP_client [OF that] c by simp
  moreover have "ServeHTTP ext tick r s =
      Inr (\<lparr>client = map W (cors_four origin), dispatched = []\<rparr>, poll tick s)"
    if "hr_Method r = ''OPTIONS''"
    using that c by (simp add: ServeHTTP_def Let_def)
  moreover have "rec_Code (cors_four origin) = 200" "rec_Body (cors_four origin) = []"
    by (simp_all add: cors_four_def)
  ultimately show ?thesis by blast
qed

theorem cors_headers_added_witness:
  "Header_Get (hr_Header toy_options) ''Origin'' = ''http://example.com''
   \<and> ''http://example.com'' \<noteq> []
   \<and> (\<exists>re. CORSMatch toy_gateway = Some re \<and> re ''http://example.com'')
   \<and> hr_Method toy_options = ''OPTIONS''
   \<and> ServeHTTP toy_ext False toy_options toy_gateway =
        Inr (\<lparr>client =
               [W (Header_Add ''Access-Control-Allow-Origin'' ''http://example.com''),
                W (Header_Add ''Access-Control-Allow-Methods'' ''GET, POST, OPTIONS''),
                W (Header_Add ''Access-Control-Allow-Credentials'' ''true''),
                W (Header_Add ''Access-Control-Allow-Headers''
                     ''DNT, User-Agent, X-Requested-With, Content-Type'')],
              dispatched = []\<rparr>, toy_gateway)"
proof -
  have 1: "Header_Get (hr_Header toy_options) ''Origin'' = ''http://example.com''"
    by (simp add: Header_Get_def toy_options_def toy_post_def)
  have 2: "''http://example.com'' \<noteq> []" by simp
  have 3: "CORSMatch toy_gateway = Some (\<lambda>origin. origin = ''http://example.com'')"
    by (simp add: toy_gateway_def)
  have 4: "(\<lambda>origin. origin = ''http://example.com'') ''http://example.com''" by simp
  have 5: "hr_Method toy_options = ''OPTIONS''" by (simp add: toy_options_def)
  from cors_headers_added [OF 1 2 3 4, of toy_ext False] 1 2 3 5 show ?thesis
    by (simp add: cors_four_def poll_def)
qed

text \<open>
  C4. For a non-empty method \<open>M\<close> and a value \<open>P\<close> that \<open>json.Marshal\<close> encodes (to bytes
  \<open>a\<close>; an encoding is never empty): \<open>UpdateRequest(M, P)\<close> returns no error, after it
  \<open>Method()\<close> returns \<open>M\<close>, and \<open>ReadRequest(out)\<close> is \<open>json.Unmarshal\<close> of the encoding of
  \<open>P\<close> into \<open>out\<close>; the arguments of the codec request are not read.
\<close>

theorem UpdateRequest_then_read:
  assumes "M \<noteq> []"
    and "json_Marshal ext P = Inr a"
    and "a \<noteq> []"
  shows "fst (UpdateRequest ext M (Some P) r) = None
       \<and> Method (snd (UpdateRequest ext M (Some P) r)) = Inr M
       \<and> ReadRequest ext (snd (UpdateRequest ext M (Some P) r)) out = json_Unmarshal ext a out"
  using assms by (simp add: UpdateRequest_def Method_def ReadRequest_def)

theorem UpdateRequest_then_read_witness:
  "''TestEndpoint.Foo'' \<noteq> []
   \<and> json_Marshal toy_ext ''{a:1}'' = Inr ''{a:1}''
   \<and> ''{a:1}'' \<noteq> []
   \<and> Method toy_request = Inr ''TestEndpoint.Bar''
   \<and> ReadRequest toy_ext toy_request [] = (None, ''5'')
   \<and> fst (UpdateRequest toy_ext ''TestEndpoint.Foo'' (Some ''{a:1}'') toy_request) = None
   \<and> Method (snd (UpdateRequest toy_ext ''TestEndpoint.Foo'' (Some ''{a:1}'') toy_request))
        = Inr ''TestEndpoint.Foo''
   \<and> ReadRequest toy_ext
         (snd (UpdateRequest toy_ext ''TestEndpoint.Foo'' (Some ''{a:1}'') toy_request)) []
        = (None, ''{a:1}'')"
proof -
  have 1: "''TestEndpoint.Foo'' \<noteq> []" "''{a:1}'' \<noteq> []" by simp_all
  have 2: "json_Marshal toy_ext ''{a:1}'' = Inr ''{a:1}''" by (simp add: toy_ext_def)
  have 3: "json_Unmarshal toy_ext ''{a:1}'' [] = (None, ''{a:1}'')" by (simp add: toy_ext_def)
  have 4: "Method toy_request = Inr ''TestEndpoint.Bar''"
    "ReadRequest toy_ext toy_request [] = (None, ''5'')"
    by (simp_all add: toy_request_def new_Request_def Method_def ReadRequest_def toy_codec_def
        toy_post_def)
  from UpdateRequest_then_read [OF 1(1) 2 1(2), of toy_request "[]"] 1 2 3 4
  show ?thesis by simp
qed






text \<open>
  C10. When \<open>AddURL\<close> returns an error the service mapping is the one before the call; it
  returns an error when the URL does not parse, when its host is empty, and when the fetch
  of \<open>RPC.GetServices\<close> fails. Only when it returns no error have services been entered,
  those of the fetched list.
\<close>

theorem AddURL_error_keeps_services:
  assumes "u = (if take 4 u0 \<noteq> ''http'' then ''http://'' @ u0 else u0)"
  shows "(fst (AddURL ext u0 s) \<noteq> None \<longrightarrow> services (snd (AddURL ext u0 s)) = services s)
       \<and> (fst (AddURL ext u0 s) = None \<longrightarrow>
            (\<exists>uu srvs. services (snd (AddURL ext u0 s))
                          = fold (add_service uu u) srvs (services s)))
       \<and> (\<forall>err. url_Parse ext u = Inl err \<longrightarrow> AddURL ext u0 s = (Some err, s))
       \<and> (\<forall>p. url_Parse ext u = Inr p \<and> URL_Host p = [] \<longrightarrow>
            fst (AddURL ext u0 s) = Some (errors_New ''invalid url specified''))
       \<and> (\<forall>p. url_Parse ext u = Inr p \<and> URL_Host p \<noteq> []
              \<and> (\<forall>w x. isl (fst (JSONRPC2Call_GetServices ext w x))) \<longrightarrow>
            fst (AddURL ext u0 s) \<noteq> None)"
proof -
  have 1: "fst (AddURL ext u0 s) \<noteq> None \<longrightarrow> services (snd (AddURL ext u0 s)) = services s"
    by (simp add: AddURL_fails_frame)
  have 2: "fst (AddURL ext u0 s) = None \<longrightarrow>
            (\<exists>uu srvs. services (snd (AddURL ext u0 s))
                          = fold (add_service uu u) srvs (services s))"
    unfolding assms
    by (auto simp: AddURL_def Let_def new_URL_def resolveURL_def
        split: sum.splits prod.splits if_splits)
  have 3: "AddURL ext u0 s = (Some err, s)" if "url_Parse ext u = Inl err" for err
    using that unfolding assms by (simp add: AddURL_def Let_def)
  have 4: "fst (AddURL ext u0 s) = Some (errors_New ''invalid url specified'')"
    if "url_Parse ext u = Inr p \<and> URL_Host p = []" for p
    using that unfolding assms by (simp add: AddURL_def Let_def new_URL_def)
  have 5: "fst (AddURL ext u0 s) \<noteq> None"
    if h: "url_Parse ext u = Inr p \<and> URL_Host p \<noteq> []
        \<and> (\<forall>w x. isl (fst (JSONRPC2Call_GetServices ext w x)))" for p
  proof -
    obtain uu s1 where n: "new_URL p s = (uu, s1)" by (cases "new_URL p s") auto
    then have hp: "heap s1 uu = p" by (auto simp: new_URL_def)
    obtain a s2 where r: "resolveURL ext uu s1 = (a, s2)"
      by (cases "resolveURL ext uu s1") auto
    obtain res w' where j:
      "JSONRPC2Call_GetServices ext (srv s2) (URL_String ext (heap s2 a)) = (res, w')"
      by (cases "JSONRPC2Call_GetServices ext (srv s2) (URL_String ext (heap s2 a))") auto
    from h have "isl (fst (JSONRPC2Call_GetServices ext (srv s2) (URL_String ext (heap s2 a))))"
      by blast
    with j obtain e where "res = Inl e" by (cases res) auto
    with h n hp r j show ?thesis
      unfolding assms by (simp add: AddURL_def Let_def)
  qed
  from 1 2 3 4 5 show ?thesis by blast
qed

theorem AddURL_error_keeps_services_witness:
  "''http://backend:8887'' = (if take 4 ''backend:8887'' \<noteq> ''http'' then ''http://'' @ ''backend:8887''
                                else ''backend:8887'')
   \<and> fst (AddURL toy_ext ''backend:8887'' toy_gateway) = Some (errors_New ''connection refused'')
   \<and> services (snd (AddURL toy_ext ''backend:8887'' toy_gateway)) = services toy_gateway
   \<and> url_Parse toy_ext ''https://backend'' = Inl (errors_New ''parse error'')
   \<and> AddURL toy_ext ''https://backend'' toy_gateway = (Some (errors_New ''parse error''), toy_gateway)
   \<and> url_Parse toy_ext ''http://'' = Inr (toy_URL [])
   \<and> fst (AddURL toy_ext ''http://'' toy_gateway) = Some (errors_New ''invalid url specified'')"
proof -
  have 1: "''http://backend:8887'' = (if take 4 ''backend:8887'' \<noteq> ''http''
      then ''http://'' @ ''backend:8887'' else ''backend:8887'')"
    by simp
  have 2: "fst (AddURL toy_ext ''backend:8887'' toy_gateway) = Some (errors_New ''connection refused'')"
    by (simp add: AddURL_def Let_def new_URL_def resolveURL_def toy_ext_def toy_gateway_def
        toy_URL_def)
  have 3: "''https://backend'' = (if take 4 ''https://backend'' \<noteq> ''http''
      then ''http://'' @ ''https://backend'' else ''https://backend'')"
    by simp
  have 4: "url_Parse toy_ext ''https://backend'' = Inl (errors_New ''parse error'')"
    by (simp add: toy_ext_def)
  have 5: "''http://'' = (if take 4 ''http://'' \<noteq> ''http'' then ''http://'' @ ''http://''
      else ''http://'')"
    by simp
  have 6: "url_Parse toy_ext ''http://'' = Inr (toy_URL [])" "URL_Host (toy_URL []) = []"
    by (simp_all add: toy_ext_def toy_URL_def)
  from AddURL_error_keeps_services [OF 1, of toy_ext toy_gateway] 2
  have a: "services (snd (AddURL toy_ext ''backend:8887'' toy_gateway)) = services toy_gateway"
    by simp
  from AddURL_error_keeps_services [OF 3, of toy_ext toy_gateway] 4
  have b: "AddURL toy_ext ''https://backend'' toy_gateway = (Some (errors_New ''parse error''), toy_gateway)"
    by simp
  from AddURL_error_keeps_services [OF 5, of toy_ext toy_gateway] 6
  have c: "fst (AddURL toy_ext ''http://'' toy_gateway) = Some (errors_New ''invalid url specified'')"
    by blast
  from 1 2 4 6 a b c show ?thesis by simp
qed

end
